theory Spec2Isabelle
  imports Complex_Main "HOL-Library.Multiset"
begin

section \<open>JavaScript strings\<close>

text \<open>
  A JavaScript string is a sequence of UTF-16 code units; \<open>includes\<close>, \<open>startsWith\<close>,
  \<open>trim\<close> and a regular expression without the \<open>u\<close> flag all work on code units. The
  model keeps that: a string is a list of code units, each a natural number. An ASCII
  literal of the source is written \<open>js ''...''\<close>; the three non-ASCII characters the
  source uses are named constants.

  Names follow the source. Where a name of the source is taken in Isabelle it gets a
  suffix or prefix: \<open>str_includes\<close> for \<open>includes\<close>, \<open>total_cost\<close> for \<open>total\<close>,
  \<open>notes_text\<close> for \<open>notes\<close>, \<open>msg_count\<close> for \<open>count\<close>, \<open>city_w\<close> for the \<open>city\<close> of the
  wizard. The repository holds several revisions of the same handler; the functions of
  the wizard revision of server.js carry the suffix \<open>_srv\<close>, those of the revision
  with the guarded extractor (part_002) have the plain names, those that only the
  revision of part_000 has carry the suffix \<open>_p0\<close>, and the handler with the
  delegated extractor (part_003) has the suffix \<open>_llm\<close>.
\<close>

type_synonym jsstring = "nat list"

definition js :: "string \<Rightarrow> jsstring" where
  "js s = map of_char s"

definition euro_sign :: jsstring where
  "euro_sign = [8364]"

definition right_quote :: nat where
  "right_quote = 8217"

definition a_grave :: nat where
  "a_grave = 224"

fun startsWith :: "jsstring \<Rightarrow> jsstring \<Rightarrow> bool" where
  "startsWith s [] = True"
| "startsWith [] (n # ns) = False"
| "startsWith (c # cs) (n # ns) = (c = n \<and> startsWith cs ns)"

fun str_includes :: "jsstring \<Rightarrow> jsstring \<Rightarrow> bool" where
  "str_includes [] n = (n = [])"
| "str_includes (c # cs) n = (startsWith (c # cs) n \<or> str_includes cs n)"

definition isDigit :: "nat \<Rightarrow> bool" where
  "isDigit c = (48 \<le> c \<and> c \<le> 57)"

text \<open>
  White space as \<open>String.prototype.trim\<close> and the regular expression class \<open>\s\<close> read
  it: tab, line feed, vertical tab, form feed, carriage return, space, no-break space,
  U+1680, U+2000 to U+200A, U+2028, U+2029, U+202F, U+205F, U+3000 and U+FEFF.
\<close>

definition isWhiteSpace :: "nat \<Rightarrow> bool" where
  "isWhiteSpace c =
     ((9 \<le> c \<and> c \<le> 13) \<or> c = 32 \<or> c = 160 \<or> c = 5760 \<or>
      (8192 \<le> c \<and> c \<le> 8202) \<or> c = 8232 \<or> c = 8233 \<or> c = 8239 \<or>
      c = 8287 \<or> c = 12288 \<or> c = 65279)"

definition trim :: "jsstring \<Rightarrow> jsstring" where
  "trim s = rev (dropWhile isWhiteSpace (rev (dropWhile isWhiteSpace s)))"

text \<open>
  \<open>toLowerCase\<close> is modelled on Basic Latin and the Latin-1 supplement (which covers every
  keyword of the source, the accented spelling of Canada included); other code units are left as they are.
\<close>

definition lowerUnit :: "nat \<Rightarrow> nat" where
  "lowerUnit c =
     (if 65 \<le> c \<and> c \<le> 90 then c + 32
      else if (192 \<le> c \<and> c \<le> 214) \<or> (216 \<le> c \<and> c \<le> 222) then c + 32
      else c)"

definition toLowerCase :: "jsstring \<Rightarrow> jsstring" where
  "toLowerCase s = map lowerUnit s"

text \<open>
  \<open>parseInt(s, 10)\<close> on a string of decimal digits; the empty string gives \<open>NaN\<close>
  (\<open>None\<close>). The model keeps the exact integer, which is the value the source computes
  below \<open>2^53\<close>; a longer run of digits is rounded to a double by the source and not by
  the model.
\<close>

definition parseInt :: "jsstring \<Rightarrow> nat option" where
  "parseInt ds = (if ds = [] then None else Some (foldl (\<lambda>a c. 10 * a + (c - 48)) 0 ds))"

section \<open>The deterministic extractor\<close>

subsection \<open>parseBudget\<close>

text \<open>
  The first match of the number pattern \<open>/(\d[\d\.'Q]*\d|\d+)/\<close>, where \<open>Q\<close> stands for the
  right single quotation mark U+2019. A match starts with a digit and the
  second alternative matches at every digit, so the match starts at the first digit of
  the string. There the first alternative takes the digit, the longest run of class
  characters after it, and gives characters back until the run ends with a digit; when
  the run holds no digit, the second alternative matches the single digit. Either way
  the match is the digit and the run, without the non-digits at the end of the run.
\<close>

definition inNumberClass :: "nat \<Rightarrow> bool" where
  "inNumberClass c = (isDigit c \<or> c = 46 \<or> c = 39 \<or> c = right_quote)"

definition firstNumber :: "jsstring \<Rightarrow> jsstring option" where
  "firstNumber s =
     (case dropWhile (\<lambda>c. \<not> isDigit c) s of
        [] \<Rightarrow> None
      | d # rest \<Rightarrow>
          Some (rev (dropWhile (\<lambda>c. \<not> isDigit c) (rev (d # takeWhile inNumberClass rest)))))"

text \<open>\<open>match[0].replace(/[^\d]/g, "")\<close> read by \<open>parseInt\<close>.\<close>

definition numberValue :: "jsstring \<Rightarrow> nat option" where
  "numberValue m = parseInt (filter isDigit m)"

text \<open>\<open>parseBudget\<close> of the revision with the currency guard (part_002, lines 145-167).\<close>

definition hasCurrency :: "jsstring \<Rightarrow> bool" where
  "hasCurrency lower =
     (str_includes lower euro_sign \<or>
      str_includes lower (js ''euro'') \<or>
      str_includes lower (js '' eur'') \<or>
      str_includes lower (js '' k'') \<or>
      str_includes lower (js '' mila''))"

definition parseBudget :: "jsstring \<Rightarrow> nat option" where
  "parseBudget text =
     (let lower = toLowerCase text;
          hasCur = hasCurrency lower
      in case firstNumber lower of
           None \<Rightarrow> None
         | Some m \<Rightarrow>
             (case numberValue m of
                None \<Rightarrow> None
              | Some v \<Rightarrow> if \<not> hasCur \<and> v < 100 then None else Some v))"

text \<open>\<open>parseBudget\<close> of the earlier wizard revision (server.js, lines 332-337): no guard.\<close>

definition parseBudget_srv :: "jsstring \<Rightarrow> nat option" where
  "parseBudget_srv text =
     (case firstNumber (toLowerCase text) of
        None \<Rightarrow> None
      | Some m \<Rightarrow> numberValue m)"

subsection \<open>parseCountryCode\<close>

definition code_us :: jsstring where
  "code_us = js ''us''"

definition code_canada :: jsstring where
  "code_canada = js ''canada''"

definition canada_accented :: jsstring where
  "canada_accented = js ''canad'' @ [a_grave]"

text \<open>part_002, lines 172-208: country words first, then typical cities.\<close>

definition parseCountryCode :: "jsstring \<Rightarrow> jsstring option" where
  "parseCountryCode text =
     (let lower = toLowerCase text in
      if str_includes lower (js ''usa'') \<or>
         str_includes lower (js ''stati uniti'') \<or>
         str_includes lower (js ''america'')
      then Some code_us
      else if str_includes lower (js ''canada'') \<or> str_includes lower canada_accented
      then Some code_canada
      else if str_includes lower (js ''boston'') \<or>
              str_includes lower (js ''new york'') \<or>
              str_includes lower (js ''los angeles'') \<or>
              str_includes lower (js ''san diego'')
      then Some code_us
      else if str_includes lower (js ''toronto'') \<or>
              str_includes lower (js ''vancouver'') \<or>
              str_includes lower (js ''montreal'') \<or>
              str_includes lower (js ''calgary'')
      then Some code_canada
      else None)"

text \<open>server.js, lines 339-353.\<close>

definition parseCountryCode_srv :: "jsstring \<Rightarrow> jsstring option" where
  "parseCountryCode_srv text =
     (let lower = toLowerCase text in
      if str_includes lower (js ''usa'') \<or>
         str_includes lower (js ''stati uniti'') \<or>
         str_includes lower (js ''stato unito'') \<or>
         str_includes lower (js ''america'')
      then Some code_us
      else if str_includes lower (js ''canada'') \<or> str_includes lower canada_accented
      then Some code_canada
      else None)"

subsection \<open>parseWeeks\<close>

text \<open>
  The unit alternation of the duration pattern, tried in the source's order at the head
  of a string; the result is the text of group 2. \<open>sett\.?\<close> and the plural \<open>s?\<close> are
  greedy, so the longer reading is tried first.
\<close>

definition firstPrefix :: "jsstring \<Rightarrow> jsstring list \<Rightarrow> jsstring option" where
  "firstPrefix s alts = find (startsWith s) alts"

definition unitAlternatives :: "jsstring list" where
  "unitAlternatives =
     [js ''settimane'', js ''sett.'', js ''sett'', js ''weeks'', js ''week'',
      js ''mesi'', js ''mese'', js ''months'', js ''month'']"

definition unitAlternatives_srv :: "jsstring list" where
  "unitAlternatives_srv = [js ''settimane'', js ''sett.'', js ''sett'', js ''mesi'', js ''mese'']"

text \<open>
  The first match of \<open>/(\d+)\s*(unit)/\<close>, as groups 1 and 2. At a digit the pattern
  takes the whole run of digits and the white space after it (giving back a digit or a
  space cannot help: no unit starts with either), so a start position matches exactly
  when a unit follows that run; positions are tried from the left.
\<close>

fun durationMatch :: "jsstring list \<Rightarrow> jsstring \<Rightarrow> (jsstring \<times> jsstring) option" where
  "durationMatch alts [] = None"
| "durationMatch alts (c # cs) =
     (if isDigit c then
        (case firstPrefix (dropWhile isWhiteSpace (dropWhile isDigit (c # cs))) alts of
           Some u \<Rightarrow> Some (takeWhile isDigit (c # cs), u)
         | None \<Rightarrow> durationMatch alts cs)
      else durationMatch alts cs)"

text \<open>part_002, lines 214-232.\<close>

definition parseWeeks :: "jsstring \<Rightarrow> nat option" where
  "parseWeeks text =
     (let lower = toLowerCase text in
      if str_includes lower (js ''estate'') \<or> str_includes lower (js ''summer'') then Some 12
      else if str_includes lower (js ''semestre'') \<or> str_includes lower (js ''semester'')
      then Some 24
      else if str_includes lower (js ''anno'') \<or> str_includes lower (js ''year'') then Some 48
      else case durationMatch unitAlternatives lower of
             None \<Rightarrow> None
           | Some (ds, unit) \<Rightarrow>
               (case parseInt ds of
                  None \<Rightarrow> None
                | Some num \<Rightarrow>
                    if startsWith unit (js ''mes'') \<or> startsWith unit (js ''month'')
                    then Some (num * 4) else Some num))"

text \<open>server.js, lines 355-373.\<close>

definition parseWeeks_srv :: "jsstring \<Rightarrow> nat option" where
  "parseWeeks_srv text =
     (let lower = toLowerCase text in
      if str_includes lower (js ''estate'') then Some 12
      else if str_includes lower (js ''semestre'') then Some 24
      else if str_includes lower (js ''anno'') then Some 48
      else case durationMatch unitAlternatives_srv lower of
             None \<Rightarrow> None
           | Some (ds, unit) \<Rightarrow>
               (case parseInt ds of
                  None \<Rightarrow> None
                | Some num \<Rightarrow>
                    if startsWith unit (js ''mes'') then Some (num * 4) else Some num))"

subsection \<open>parseGoal and isProgramIntent\<close>

text \<open>part_002, lines 238-256: a keyword gates acceptance, the whole text is the goal.\<close>

definition parseGoal :: "jsstring \<Rightarrow> jsstring option" where
  "parseGoal text =
     (let lower = toLowerCase text in
      if str_includes lower (js ''cultur'') \<or>
         str_includes lower (js ''cresc'') \<or>
         str_includes lower (js ''personal'') \<or>
         str_includes lower (js ''univers'') \<or>
         str_includes lower (js ''lavor'') \<or>
         str_includes lower (js ''inglese'') \<or>
         str_includes lower (js ''toefl'') \<or>
         str_includes lower (js ''ielts'') \<or>
         str_includes lower (js ''accadem'')
      then Some (trim text)
      else None)"

text \<open>part_002, lines 261-274.\<close>

definition isProgramIntent :: "jsstring \<Rightarrow> bool" where
  "isProgramIntent text =
     (let lower = toLowerCase text in
      str_includes lower (js ''usa'') \<or>
      str_includes lower (js ''canada'') \<or>
      str_includes lower (js ''all'estero'') \<or>
      str_includes lower (js ''anno'') \<or>
      str_includes lower (js ''semestre'') \<or>
      str_includes lower (js ''exchange'') \<or>
      str_includes lower (js ''programma'') \<or>
      str_includes lower (js ''programmi'') \<or>
      parseBudget text \<noteq> None)"

text \<open>server.js, lines 375-389.\<close>

definition isProgramIntent_srv :: "jsstring \<Rightarrow> bool" where
  "isProgramIntent_srv text =
     (let lower = toLowerCase text in
      str_includes lower (js ''usa'') \<or>
      str_includes lower (js ''canada'') \<or>
      str_includes lower (js ''programma'') \<or>
      str_includes lower (js ''all'estero'') \<or>
      str_includes lower (js ''estero'') \<or>
      str_includes lower (js ''semestre'') \<or>
      str_includes lower (js ''anno'') \<or>
      str_includes lower (js ''summer'') \<or>
      str_includes lower (js ''exchange'') \<or>
      parseBudget_srv text \<noteq> None)"

section \<open>The comparison engine\<close>

text \<open>
  Reference data: one partner record per school, read from \<open>partners/<countryCode>.json\<close>.
  Prices, fees and totals are kept as exact rationals. That is what the source computes
  when prices, fees and weeks are whole numbers, none negative, and the total stays
  below \<open>2^53\<close>; on other reference data the source rounds each product and sum to a
  double and this model does not. The subtraction, the division and the comparisons of
  \<open>matchScore\<close> are rounded as the source rounds them (see below).
\<close>

record partner =
  name :: jsstring
  city :: jsstring
  tuition_per_week :: rat
  housing_per_week :: rat
  fees :: rat
  notes_text :: jsstring

text \<open>The result of the \<open>map\<close> callback: \<open>{ ...p, total, tuition, housing, fitsBudget }\<close>.\<close>

record program = partner +
  total_cost :: rat
  tuition :: rat
  housing :: rat
  fitsBudget :: bool

text \<open>
  What \<open>fs.readFileSync\<close> followed by \<open>JSON.parse\<close> does for a country code: the read
  throws (no such file), the parse throws (corrupt file), or a JSON value comes back.
  Of a value that is not an array only two things matter to the caller: whether it is
  \<open>null\<close>, and whether its \<open>length\<close> property is truthy.
\<close>

datatype json_value = JArray "partner list" | JNull | JNoLength | JHasLength

datatype file_read = ReadThrows | ParseThrows | Parsed json_value

type_synonym partner_files = "jsstring \<Rightarrow> file_read"

datatype js_error = TypeError | ApiError

definition loadPartners :: "partner_files \<Rightarrow> jsstring \<Rightarrow> json_value" where
  "loadPartners files countryCode =
     (case files countryCode of
        ReadThrows \<Rightarrow> JArray []
      | ParseThrows \<Rightarrow> JArray []
      | Parsed v \<Rightarrow> v)"

definition priced :: "rat \<Rightarrow> rat \<Rightarrow> partner \<Rightarrow> program" where
  "priced budget wks p =
     (let tuition = tuition_per_week p * wks;
          housing = housing_per_week p * wks;
          tot = tuition + housing + fees p
      in \<lparr> name = name p, city = city p,
           tuition_per_week = tuition_per_week p, housing_per_week = housing_per_week p,
           fees = fees p, notes_text = notes_text p,
           total_cost = tot, tuition = tuition, housing = housing,
           fitsBudget = (tot \<le> budget) \<rparr>)"

text \<open>
  \<open>comparePrograms\<close>: \<open>partners.length\<close> on \<open>null\<close> and \<open>partners.map\<close> on a value that is
  not an array raise a \<open>TypeError\<close>. \<open>Array.prototype.sort\<close> with the comparator
  \<open>a.total - b.total\<close> is a stable ascending sort on the totals.
\<close>

definition comparePrograms :: "partner_files \<Rightarrow> jsstring \<Rightarrow> rat \<Rightarrow> rat \<Rightarrow> js_error + program list" where
  "comparePrograms files countryCode budget wks =
     (case loadPartners files countryCode of
        JNull \<Rightarrow> Inl TypeError
      | JNoLength \<Rightarrow> Inr []
      | JHasLength \<Rightarrow> Inl TypeError
      | JArray partners \<Rightarrow>
          if partners = [] then Inr []
          else Inr (sort_key total_cost (map (priced budget wks) partners)))"

subsection \<open>Double-precision rounding\<close>

text \<open>
  \<open>matchScore\<close> subtracts, divides and compares IEEE 754 doubles. A finite double is
  kept as the rational number it denotes. \<open>toDouble\<close> rounds a rational to the nearest
  double, ties to the even significand, as each arithmetic operation and each decimal
  literal of the source does. A positive \<open>x\<close> in the binade from \<open>2^e\<close> to \<open>2^(e+1)\<close> is
  rounded to a multiple of \<open>2^(e-52)\<close>, and to a multiple of \<open>2^-1074\<close> in the subnormal
  range; a result of \<open>2^1024\<close> or more is an infinity. Negative zero is not told apart
  from zero.

  \<open>lgUp x\<close> is the exponent \<open>e\<close> of the binade of \<open>x \<ge> 1\<close>, and \<open>lgDown x\<close> is \<open>-e\<close> for
  \<open>0 < x < 1\<close>.
\<close>

function lgUp :: "rat \<Rightarrow> nat" where
  "lgUp x = (if x < 2 then 0 else Suc (lgUp (x / 2)))"
  by pat_completeness auto
termination
proof (relation "measure (\<lambda>x. nat \<lfloor>x\<rfloor>)")
  show "wf (measure (\<lambda>x::rat. nat \<lfloor>x\<rfloor>))" by simp
next
  fix x :: rat
  assume "\<not> x < 2"
  then have x: "2 \<le> x" by simp
  then have "x / 2 \<le> x - 1" by simp
  then have "\<lfloor>x / 2\<rfloor> \<le> \<lfloor>x - 1\<rfloor>" by (rule floor_mono)
  moreover have "\<lfloor>x - 1\<rfloor> = \<lfloor>x\<rfloor> - 1" by simp
  moreover have "2 \<le> \<lfloor>x\<rfloor>" using x by (simp add: le_floor_iff)
  ultimately show "(x / 2, x) \<in> measure (\<lambda>x. nat \<lfloor>x\<rfloor>)" by simp
qed

function lgDown :: "rat \<Rightarrow> nat" where
  "lgDown x = (if x \<le> 0 \<or> 1 \<le> x then 0 else Suc (lgDown (2 * x)))"
  by pat_completeness auto
termination
proof (relation "measure (\<lambda>x. nat \<lceil>1 / x\<rceil>)")
  show "wf (measure (\<lambda>x::rat. nat \<lceil>1 / x\<rceil>))" by simp
next
  fix x :: rat
  assume "\<not> (x \<le> 0 \<or> 1 \<le> x)"
  then have x0: "0 < x" and x1: "x < 1" by simp_all
  define y where "y = 1 / x"
  have y1: "1 < y" unfolding y_def using x0 x1 by simp
  have half: "1 / (2 * x) = y / 2" unfolding y_def by simp
  have "\<lceil>y / 2\<rceil> < \<lceil>y\<rceil>"
  proof (cases "y \<le> 2")
    case True
    then have "\<lceil>y / 2\<rceil> \<le> 1" by simp
    moreover have "1 < \<lceil>y\<rceil>" using y1 by simp
    ultimately show ?thesis by linarith
  next
    case False
    then have "y / 2 \<le> y - 1" by simp
    then have "\<lceil>y / 2\<rceil> \<le> \<lceil>y - 1\<rceil>" by (rule ceiling_mono)
    then show ?thesis by simp
  qed
  moreover have "0 < \<lceil>y\<rceil>" using y1 by (simp add: less_ceiling_iff)
  ultimately show "(2 * x, x) \<in> measure (\<lambda>x. nat \<lceil>1 / x\<rceil>)"
    by (simp add: half y_def)
qed

declare lgUp.simps [simp del] lgDown.simps [simp del]

definition binade :: "rat \<Rightarrow> int" where
  "binade x = (if 1 \<le> x then int (lgUp x) else - int (lgDown x))"

definition roundHalfEven :: "rat \<Rightarrow> int" where
  "roundHalfEven y =
     (let f = \<lfloor>y\<rfloor>; r = y - of_int f in
      if r < 1 / 2 then f else if 1 / 2 < r then f + 1 else if even f then f else f + 1)"

datatype fp = Fin rat | PosInf | NegInf | NaN

text \<open>The nearest multiple of the quantum of a positive \<open>x\<close>, before the overflow test.\<close>

definition roundPos :: "rat \<Rightarrow> rat" where
  "roundPos x =
     (let q = max (binade x - 52) (- 1074)
      in of_int (roundHalfEven (x / 2 powi q)) * 2 powi q)"

definition toDouble :: "rat \<Rightarrow> fp" where
  "toDouble x =
     (if x = 0 then Fin 0
      else if 0 < x then (let y = roundPos x in if 2 powi 1024 \<le> y then PosInf else Fin y)
      else (let y = roundPos (- x) in if 2 powi 1024 \<le> y then NegInf else Fin (- y)))"

text \<open>The comparisons \<open><\<close> and \<open><=\<close>: false whenever an operand is \<open>NaN\<close>.\<close>

fun fp_less :: "fp \<Rightarrow> fp \<Rightarrow> bool" where
  "fp_less (Fin a) (Fin b) = (a < b)"
| "fp_less (Fin a) PosInf = True"
| "fp_less NegInf (Fin b) = True"
| "fp_less NegInf PosInf = True"
| "fp_less _ _ = False"

definition fp_le :: "fp \<Rightarrow> fp \<Rightarrow> bool" where
  "fp_le a b = (fp_less a b \<or> (a = b \<and> a \<noteq> NaN))"

text \<open>
  The quotient of a double by a finite double \<open>b\<close>: a non-zero number divided by zero is
  an infinity, zero by zero is \<open>NaN\<close>.
\<close>

fun fp_div :: "fp \<Rightarrow> rat \<Rightarrow> fp" where
  "fp_div (Fin a) b =
     (if b = 0 then (if a = 0 then NaN else if 0 < a then PosInf else NegInf)
      else toDouble (a / b))"
| "fp_div PosInf b = (if b < 0 then NegInf else PosInf)"
| "fp_div NegInf b = (if b < 0 then PosInf else NegInf)"
| "fp_div NaN b = NaN"

text \<open>
  \<open>matchScore\<close> (server.js, lines 537-546) on two finite doubles, given by their values:
  \<open>diff\<close> is the rounded difference, \<open>ratio\<close> the rounded quotient, and each threshold
  is the double its decimal literal denotes. A zero budget with a positive difference
  divides to \<open>Infinity\<close>, which fails every \<open>ratio < c\<close> test and scores 2.5.
\<close>

definition matchScore :: "rat \<Rightarrow> rat \<Rightarrow> rat" where
  "matchScore tot budget =
     (let diff = toDouble (tot - budget) in
      if fp_le diff (Fin 0) then 5
      else let ratio = fp_div diff budget in
        if fp_less ratio (toDouble (1 / 10)) then 9 / 2
        else if fp_less ratio (toDouble (2 / 10)) then 4
        else if fp_less ratio (toDouble (3 / 10)) then 7 / 2
        else if fp_less ratio (toDouble (5 / 10)) then 3
        else 5 / 2)"

datatype tag =
    BudgetOk | SopraBudget | FocusAccademico | LifestyleOutdoor | GrandeCitta
  | MatchMoltoAlto | BuonMatch | CompromessoBudget | UsaComeRiferimento

definition badgeArray :: "program \<Rightarrow> rat \<Rightarrow> tag list" where
  "badgeArray p score =
     (let cityLower = toLowerCase (city p) in
      [if fitsBudget p then BudgetOk else SopraBudget]
      @ (if str_includes cityLower (js ''boston'') \<or> str_includes cityLower (js ''new york'')
         then [FocusAccademico] else [])
      @ (if str_includes cityLower (js ''los angeles'') \<or>
            str_includes cityLower (js ''san diego'') \<or>
            str_includes cityLower (js ''vancouver'')
         then [LifestyleOutdoor] else [])
      @ (if str_includes cityLower (js ''toronto'') then [GrandeCitta] else [])
      @ [if score \<ge> 9 / 2 then MatchMoltoAlto
         else if score \<ge> 4 then BuonMatch
         else if score \<ge> 7 / 2 then CompromessoBudget
         else UsaComeRiferimento])"

text \<open>
  A card is kept as data (the option number, the program, its score and tags) and not
  as the text block the source joins from them.
\<close>

record card =
  option_no :: nat
  card_program :: program
  score :: rat
  tags :: "tag list"

definition cards :: "program list \<Rightarrow> rat \<Rightarrow> card list" where
  "cards programs budget =
     map (\<lambda>(index, p).
            let score = matchScore (total_cost p) budget in
            \<lparr> option_no = index + 1, card_program = p, score = score,
              tags = badgeArray p score \<rparr>)
         (enumerate 0 (take 3 programs))"

section \<open>Wizard state, sessions and responses\<close>

text \<open>
  A slot that is \<open>undefined\<close> or \<open>null\<close> is \<open>None\<close>. The source tests slots by
  truthiness, so \<open>0\<close> and the empty string count as unset as well.
\<close>

record wizard =
  budget :: "nat option"
  countryCode :: "jsstring option"
  weeks :: "nat option"
  goal :: "jsstring option"

definition emptyWizard :: wizard where
  "emptyWizard = \<lparr> budget = None, countryCode = None, weeks = None, goal = None \<rparr>"

definition truthyNum :: "nat option \<Rightarrow> bool" where
  "truthyNum v = (case v of None \<Rightarrow> False | Some n \<Rightarrow> n \<noteq> 0)"

definition truthyStr :: "jsstring option \<Rightarrow> bool" where
  "truthyStr v = (case v of None \<Rightarrow> False | Some s \<Rightarrow> s \<noteq> [])"

definition wizardActive :: "'a wizard_scheme \<Rightarrow> bool" where
  "wizardActive w =
     (truthyNum (budget w) \<or> truthyStr (countryCode w) \<or> truthyNum (weeks w) \<or> truthyStr (goal w))"

record 'w session =
  msg_count :: nat
  wizard :: 'w

definition MAX_MESSAGES_FREE :: nat where
  "MAX_MESSAGES_FREE = 20"

text \<open>
  Replies are kept as data: one constructor per text template of the source, with the
  values the template interpolates. \<open>Text\<close> is a string passed through as it is.
\<close>

datatype slot = SlotBudget | SlotCountry | SlotWeeks | SlotGoal

datatype known = KnownCountry jsstring | KnownWeeks nat | KnownBudget nat | KnownGoal jsstring

datatype reply =
    LimitReply
  | Text jsstring
  | GenericProblem
  | AskBudget
  | AskCountry nat
  | AskWeeks
  | AskGoal
  | AskMore "known list" slot
  | Comparison jsstring nat nat jsstring "card list"
  | NoPartners
  | MissingInfo
  | NoPrograms jsstring
  | ComparisonLLM jsstring "jsstring option" "card list"
  | NeedMoreInfo

datatype reply_type = ok | limit_reached

datatype response = Status400 | Status500 | Json reply_type reply

text \<open>
  The generic responder (\<open>client.chat.completions.create\<close>): the call throws, or it
  returns a completion whose content may be missing.
\<close>

datatype llm_result = LLMThrows | LLMContent "jsstring option"

section \<open>The wizard handler of server.js (lines 393-655)\<close>

text \<open>
  Lines 425-450: each detected value fills its slot only when the slot is not set yet;
  then, with budget, country and duration set, no goal, and nothing detected in this
  message, the text is the goal.
\<close>

definition fillSlots_srv :: "wizard \<Rightarrow> jsstring \<Rightarrow> wizard" where
  "fillSlots_srv w0 text =
     (let detectedBudget = parseBudget_srv text;
          w1 = (if truthyNum detectedBudget \<and> \<not> truthyNum (budget w0)
                then w0\<lparr>budget := detectedBudget\<rparr> else w0);
          detectedCountry = parseCountryCode_srv text;
          w2 = (if truthyStr detectedCountry \<and> \<not> truthyStr (countryCode w1)
                then w1\<lparr>countryCode := detectedCountry\<rparr> else w1);
          detectedWeeks = parseWeeks_srv text;
          w3 = (if truthyNum detectedWeeks \<and> \<not> truthyNum (weeks w2)
                then w2\<lparr>weeks := detectedWeeks\<rparr> else w2)
      in if truthyNum (budget w3) \<and> truthyStr (countryCode w3) \<and> truthyNum (weeks w3) \<and>
            \<not> truthyStr (goal w3) \<and>
            \<not> truthyNum detectedBudget \<and> \<not> truthyStr detectedCountry \<and>
            \<not> truthyNum detectedWeeks
         then w3\<lparr>goal := Some text\<rparr> else w3)"

text \<open>
  Lines 479-650: ask for the first missing slot, or compare. An exception of
  \<open>comparePrograms\<close> reaches the handler's \<open>catch\<close> (status 500) with the wizard as it is.
\<close>

definition guided_srv :: "partner_files \<Rightarrow> wizard \<Rightarrow> response \<times> wizard" where
  "guided_srv files w =
     (if \<not> truthyNum (budget w) then (Json ok AskBudget, w)
      else if \<not> truthyStr (countryCode w) then (Json ok (AskCountry (the (budget w))), w)
      else if \<not> truthyNum (weeks w) then (Json ok AskWeeks, w)
      else if \<not> truthyStr (goal w) then (Json ok AskGoal, w)
      else
        (case comparePrograms files (the (countryCode w))
                (of_nat (the (budget w))) (of_nat (the (weeks w))) of
           Inl e \<Rightarrow> (Status500, w)
         | Inr programs \<Rightarrow>
             if programs \<noteq> [] then
               (Json ok (Comparison (trim (the (goal w))) (the (budget w)) (the (weeks w))
                           (the (countryCode w)) (cards programs (of_nat (the (budget w))))),
                emptyWizard)
             else (Json ok NoPartners, w)))"

definition route_srv ::
  "(jsstring \<Rightarrow> llm_result) \<Rightarrow> partner_files \<Rightarrow> wizard \<Rightarrow> jsstring \<Rightarrow> response \<times> wizard" where
  "route_srv llm files w text =
     (if \<not> wizardActive w \<and> \<not> isProgramIntent_srv text then
        (case llm text of
           LLMThrows \<Rightarrow> (Status500, w)
         | LLMContent c \<Rightarrow> (Json ok (if truthyStr c then Text (the c) else GenericProblem), w))
      else guided_srv files w)"

definition chat_srv ::
  "(jsstring \<Rightarrow> llm_result) \<Rightarrow> partner_files \<Rightarrow> (jsstring \<rightharpoonup> wizard session) \<Rightarrow>
   jsstring \<Rightarrow> jsstring \<Rightarrow> response \<times> (jsstring \<rightharpoonup> wizard session)" where
  "chat_srv llm files sessions sessionId message =
     (if sessionId = [] \<or> message = [] then (Status400, sessions)
      else
        let session = (case sessions sessionId of
                         None \<Rightarrow> \<lparr> msg_count = 0, wizard = emptyWizard \<rparr>
                       | Some s \<Rightarrow> s);
            sessions1 = sessions(sessionId \<mapsto> session)
        in if msg_count session \<ge> MAX_MESSAGES_FREE
           then (Json limit_reached LimitReply, sessions1)
           else
             let text = trim message;
                 (resp, w) = route_srv llm files (fillSlots_srv (wizard session) text) text
             in (resp, sessions1(sessionId \<mapsto> \<lparr> msg_count = msg_count session + 1, wizard = w \<rparr>)))"

section \<open>The wizard handler of part_000 (lines 120-361)\<close>

text \<open>
  The revision of part_000 has the handler of server.js with detectors of its own.
  Its \<open>parseBudget\<close> (lines 61-66) is the text of server.js, lines 332-337, and its
  \<open>parseWeeks\<close> (lines 83-101) is the text of part_002, lines 214-232; they are
  \<open>parseBudget_srv\<close> and \<open>parseWeeks\<close> above.
\<close>






section \<open>The wizard handler with the guarded extractor (part_002, lines 287-541)\<close>

record wizard_p2 = wizard +
  started :: bool

definition emptyWizard_p2 :: wizard_p2 where
  "emptyWizard_p2 =
     \<lparr> budget = None, countryCode = None, weeks = None, goal = None, started = False \<rparr>"

text \<open>Lines 317-326: all four values are detected first, then merged first-write-wins.\<close>

definition fillSlots :: "wizard_p2 \<Rightarrow> jsstring \<Rightarrow> wizard_p2" where
  "fillSlots w0 text =
     (let detectedBudget = parseBudget text;
          detectedCountry = parseCountryCode text;
          detectedWeeks = parseWeeks text;
          detectedGoal = parseGoal text;
          w1 = (if truthyNum detectedBudget \<and> \<not> truthyNum (budget w0)
                then w0\<lparr>budget := detectedBudget\<rparr> else w0);
          w2 = (if truthyStr detectedCountry \<and> \<not> truthyStr (countryCode w1)
                then w1\<lparr>countryCode := detectedCountry\<rparr> else w1);
          w3 = (if truthyNum detectedWeeks \<and> \<not> truthyNum (weeks w2)
                then w2\<lparr>weeks := detectedWeeks\<rparr> else w2)
      in if truthyStr detectedGoal \<and> \<not> truthyStr (goal w3)
         then w3\<lparr>goal := detectedGoal\<rparr> else w3)"

definition knownParts :: "wizard_p2 \<Rightarrow> known list" where
  "knownParts w =
     (if truthyStr (countryCode w) then [KnownCountry (the (countryCode w))] else [])
     @ (if truthyNum (weeks w) then [KnownWeeks (the (weeks w))] else [])
     @ (if truthyNum (budget w) then [KnownBudget (the (budget w))] else [])
     @ (if truthyStr (goal w) then [KnownGoal (the (goal w))] else [])"

definition guided :: "partner_files \<Rightarrow> wizard_p2 \<Rightarrow> response \<times> wizard_p2" where
  "guided files w0 =
     (let w = w0\<lparr>started := True\<rparr>;
          missingBudget = \<not> truthyNum (budget w);
          missingCountry = \<not> truthyStr (countryCode w);
          missingWeeks = \<not> truthyNum (weeks w);
          missingGoal = \<not> truthyStr (goal w)
      in if missingBudget \<or> missingCountry \<or> missingWeeks \<or> missingGoal then
           (Json ok (AskMore (knownParts w)
                       (if missingBudget then SlotBudget
                        else if missingCountry then SlotCountry
                        else if missingWeeks then SlotWeeks
                        else SlotGoal)), w)
         else
           (case comparePrograms files (the (countryCode w))
                   (of_nat (the (budget w))) (of_nat (the (weeks w))) of
              Inl e \<Rightarrow> (Status500, w)
            | Inr programs \<Rightarrow>
                if programs \<noteq> [] then
                  (Json ok (Comparison (trim (the (goal w))) (the (budget w)) (the (weeks w))
                              (the (countryCode w)) (cards programs (of_nat (the (budget w))))),
                   emptyWizard_p2)
                else (Json ok NoPartners, w)))"

text \<open>Lines 331-355: the generic reply has its asterisks removed.\<close>

definition route ::
  "(jsstring \<Rightarrow> llm_result) \<Rightarrow> partner_files \<Rightarrow> wizard_p2 \<Rightarrow> jsstring \<Rightarrow> response \<times> wizard_p2" where
  "route llm files w text =
     (if \<not> wizardActive w \<and> \<not> isProgramIntent text then
        (case llm text of
           LLMThrows \<Rightarrow> (Status500, w)
         | LLMContent c \<Rightarrow>
             (Json ok (if truthyStr c then Text (filter (\<lambda>u. u \<noteq> 42) (the c))
                       else GenericProblem), w))
      else guided files w)"

definition chat_p2 ::
  "(jsstring \<Rightarrow> llm_result) \<Rightarrow> partner_files \<Rightarrow> (jsstring \<rightharpoonup> wizard_p2 session) \<Rightarrow>
   jsstring \<Rightarrow> jsstring \<Rightarrow> response \<times> (jsstring \<rightharpoonup> wizard_p2 session)" where
  "chat_p2 llm files sessions sessionId message =
     (if sessionId = [] \<or> message = [] then (Status400, sessions)
      else
        let session = (case sessions sessionId of
                         None \<Rightarrow> \<lparr> msg_count = 0, wizard = emptyWizard_p2 \<rparr>
                       | Some s \<Rightarrow> s);
            sessions1 = sessions(sessionId \<mapsto> session)
        in if msg_count session \<ge> MAX_MESSAGES_FREE
           then (Json limit_reached LimitReply, sessions1)
           else
             let text = trim message;
                 (resp, w) = route llm files (fillSlots (wizard session) text) text
             in (resp, sessions1(sessionId \<mapsto> \<lparr> msg_count = msg_count session + 1, wizard = w \<rparr>)))"

section \<open>The handler with the delegated extractor (part_003)\<close>

record wizard_llm = wizard +
  city_w :: "jsstring option"

definition emptyWizard_llm :: wizard_llm where
  "emptyWizard_llm =
     \<lparr> budget = None, countryCode = None, weeks = None, goal = None, city_w = None \<rparr>"

text \<open>
  The object in \<open>updatedWizard\<close>: each key is absent (\<open>None\<close>), \<open>null\<close> (\<open>Some None\<close>) or a
  value. Values are taken to have the types the prompt asks for. A truthy
  \<open>updatedWizard\<close> that is not an object spreads no slot key: it is the patch with every
  key absent.
\<close>

record patch =
  u_budget :: "nat option option"
  u_countryCode :: "jsstring option option"
  u_weeks :: "nat option option"
  u_goal :: "jsstring option option"
  u_city :: "jsstring option option"

text \<open>
  The parsed output: \<open>updatedWizard\<close> is \<open>None\<close> when the key is missing or its value
  is falsy; \<open>action\<close> and \<open>reply\<close> are \<open>None\<close> when missing.
\<close>

record control =
  updatedWizard :: "patch option"
  action :: "jsstring option"
  reply :: "jsstring option"

text \<open>
  What the call to the model gives: the call throws; the content is not JSON
  (\<open>JSON.parse\<close> throws, \<open>parsed = null\<close>); the content is JSON but falsy or not of type
  object; or it is an object (missing content is read as \<open>{}\<close>, the object with no key).
\<close>

datatype llm_output = CallThrows | NotJson | NotObject | JsonObject control

definition retryReply :: jsstring where
  "retryReply =
     js ''C'' @ [39, 232] @
     js '' stato un piccolo problema tecnico nell'elaborazione. Riproviamo: dimmi budget totale, Paese e durata, cos'' @
     [236] @ js '' ti mostro i programmi compatibili.''"

definition patchOf :: "wizard_llm \<Rightarrow> patch" where
  "patchOf w =
     \<lparr> u_budget = Some (budget w), u_countryCode = Some (countryCode w),
       u_weeks = Some (weeks w), u_goal = Some (goal w), u_city = Some (city_w w) \<rparr>"

definition fallbackControl :: "wizard_llm \<Rightarrow> control" where
  "fallbackControl w =
     \<lparr> updatedWizard = Some (patchOf w), action = Some (js ''ask_more''),
       reply = Some retryReply \<rparr>"

text \<open>Lines 90-213; the prompt itself is the collaborator's business.\<close>

definition runWizardControllerLLM ::
  "(wizard_llm \<Rightarrow> jsstring \<Rightarrow> llm_output) \<Rightarrow> wizard_llm \<Rightarrow> jsstring \<Rightarrow> js_error + control" where
  "runWizardControllerLLM model w message =
     (case model w message of
        CallThrows \<Rightarrow> Inl ApiError
      | NotJson \<Rightarrow> Inr (fallbackControl w)
      | NotObject \<Rightarrow> Inr (fallbackControl w)
      | JsonObject parsed \<Rightarrow>
          if updatedWizard parsed = None \<or> \<not> truthyStr (action parsed)
          then Inr (fallbackControl w)
          else Inr parsed)"

text \<open>\<open>{ ...wizard, ...(control.updatedWizard || {}) }\<close>: every key of the patch wins.\<close>

definition applyPatch :: "wizard_llm \<Rightarrow> patch option \<Rightarrow> wizard_llm" where
  "applyPatch w upd =
     (case upd of
        None \<Rightarrow> w
      | Some p \<Rightarrow>
          \<lparr> budget = (case u_budget p of None \<Rightarrow> budget w | Some v \<Rightarrow> v),
            countryCode = (case u_countryCode p of None \<Rightarrow> countryCode w | Some v \<Rightarrow> v),
            weeks = (case u_weeks p of None \<Rightarrow> weeks w | Some v \<Rightarrow> v),
            goal = (case u_goal p of None \<Rightarrow> goal w | Some v \<Rightarrow> v),
            city_w = (case u_city p of None \<Rightarrow> city_w w | Some v \<Rightarrow> v) \<rparr>)"

text \<open>
  Lines 279-441, the action \<open>ready_to_compare\<close>. The city note is the requested city
  when no partner of the country has exactly that city (compared lower-cased).
\<close>

definition compare_llm ::
  "partner_files \<Rightarrow> wizard_llm \<Rightarrow> jsstring \<Rightarrow> response \<times> wizard_llm" where
  "compare_llm files updated llmReply =
     (if \<not> truthyNum (budget updated) \<or> \<not> truthyStr (countryCode updated) \<or>
         \<not> truthyNum (weeks updated) \<or> \<not> truthyStr (goal updated)
      then (Json ok MissingInfo, updated)
      else
        (case comparePrograms files (the (countryCode updated))
                (of_nat (the (budget updated))) (of_nat (the (weeks updated))) of
           Inl e \<Rightarrow> (Status500, updated)
         | Inr programs \<Rightarrow>
             if programs = [] then (Json ok (NoPrograms llmReply), updated)
             else
               (case (if truthyStr (city_w updated) then
                        (case loadPartners files (the (countryCode updated)) of
                           JArray partnersForCountry \<Rightarrow>
                             Inr (if list_ex (\<lambda>p. toLowerCase (city p) =
                                                   toLowerCase (the (city_w updated)))
                                       partnersForCountry
                                  then None else city_w updated)
                         | _ \<Rightarrow> Inl TypeError)
                      else Inr None) of
                  Inl e \<Rightarrow> (Status500, updated)
                | Inr cityNote \<Rightarrow>
                    (Json ok (ComparisonLLM (trim llmReply) cityNote
                                (cards programs (of_nat (the (budget updated))))),
                     emptyWizard_llm))))"

definition chat_llm ::
  "(wizard_llm \<Rightarrow> jsstring \<Rightarrow> llm_output) \<Rightarrow> partner_files \<Rightarrow>
   (jsstring \<rightharpoonup> wizard_llm session) \<Rightarrow> jsstring \<Rightarrow> jsstring \<Rightarrow>
   response \<times> (jsstring \<rightharpoonup> wizard_llm session)" where
  "chat_llm model files sessions sessionId message =
     (if sessionId = [] \<or> message = [] then (Status400, sessions)
      else
        let session = (case sessions sessionId of
                         None \<Rightarrow> \<lparr> msg_count = 0, wizard = emptyWizard_llm \<rparr>
                       | Some s \<Rightarrow> s);
            sessions1 = sessions(sessionId \<mapsto> session)
        in if msg_count session \<ge> MAX_MESSAGES_FREE
           then (Json limit_reached LimitReply, sessions1)
           else
             let n = msg_count session + 1;
                 text = trim message;
                 w = wizard session
             in case runWizardControllerLLM model w text of
                  Inl e \<Rightarrow> (Status500, sessions1(sessionId \<mapsto> \<lparr> msg_count = n, wizard = w \<rparr>))
                | Inr ctl \<Rightarrow>
                    let updated = applyPatch w (updatedWizard ctl);
                        llmReply = (if truthyStr (reply ctl) then the (reply ctl) else []);
                        (resp, w') =
                          (if action ctl = Some (js ''off_topic'') then (Json ok (Text llmReply), updated)
                           else if action ctl = Some (js ''ask_more'') then (Json ok (Text llmReply), updated)
                           else if action ctl = Some (js ''ready_to_compare'')
                           then compare_llm files updated llmReply
                           else (Json ok NeedMoreInfo, updated))
                    in (resp, sessions1(sessionId \<mapsto> \<lparr> msg_count = n, wizard = w' \<rparr>)))"

section \<open>Notions used in the statements\<close>


text \<open>Every slot that is set in \<open>w\<close> has the same value in \<open>w'\<close>.\<close>

definition slotsKept :: "'a wizard_scheme \<Rightarrow> 'b wizard_scheme \<Rightarrow> bool" where
  "slotsKept w w' =
     ((truthyNum (budget w) \<longrightarrow> budget w' = budget w) \<and>
      (truthyStr (countryCode w) \<longrightarrow> countryCode w' = countryCode w) \<and>
      (truthyNum (weeks w) \<longrightarrow> weeks w' = weeks w) \<and>
      (truthyStr (goal w) \<longrightarrow> goal w' = goal w))"

text \<open>The response delivers a comparison with at least one card.\<close>

definition deliveredComparison :: "response \<Rightarrow> bool" where
  "deliveredComparison resp =
     (case resp of Json ok (Comparison g b w c cs) \<Rightarrow> cs \<noteq> [] | _ \<Rightarrow> False)"

text \<open>All four slots are set: the turn is a Ready turn.\<close>

definition ready :: "'a wizard_scheme \<Rightarrow> bool" where
  "ready w =
     (truthyNum (budget w) \<and> truthyStr (countryCode w) \<and> truthyNum (weeks w) \<and>
      truthyStr (goal w))"

text \<open>
  The output of the delegated extractor fails the check of \<open>runWizardControllerLLM\<close>:
  it is not JSON, not an object, or an object without a truthy \<open>updatedWizard\<close> or
  \<open>action\<close>.
\<close>

definition failsShapeCheck :: "llm_output \<Rightarrow> bool" where
  "failsShapeCheck out =
     (case out of
        CallThrows \<Rightarrow> False
      | NotJson \<Rightarrow> True
      | NotObject \<Rightarrow> True
      | JsonObject parsed \<Rightarrow> updatedWizard parsed = None \<or> \<not> truthyStr (action parsed))"

section \<open>Concrete data for the worked examples\<close>

definition demo_partner :: partner where
  "demo_partner =
     \<lparr> name = js ''Scuola'', city = js ''Toronto'', tuition_per_week = 200,
       housing_per_week = 200, fees = 400, notes_text = [] \<rparr>"

definition demo_partner2 :: partner where
  "demo_partner2 =
     \<lparr> name = js ''College'', city = js ''Boston'', tuition_per_week = 300,
       housing_per_week = 200, fees = 500, notes_text = [] \<rparr>"

text \<open>Reference data exists for \<open>us\<close> only; every other file is absent.\<close>

definition demo_files :: partner_files where
  "demo_files cc =
     (if cc = code_us then Parsed (JArray [demo_partner2, demo_partner]) else ReadThrows)"

definition demo_llm :: "jsstring \<Rightarrow> llm_result" where
  "demo_llm text = LLMContent (Some (js ''Ciao''))"

definition demo_sid :: jsstring where
  "demo_sid = js ''s1''"

definition wizard_us :: wizard where
  "wizard_us =
     \<lparr> budget = Some 9000, countryCode = Some code_us, weeks = Some 24, goal = None \<rparr>"

definition wizard_canada :: wizard where
  "wizard_canada =
     \<lparr> budget = Some 9000, countryCode = Some code_canada, weeks = Some 24, goal = None \<rparr>"

definition sessions_us :: "jsstring \<rightharpoonup> wizard session" where
  "sessions_us = [demo_sid \<mapsto> \<lparr> msg_count = 3, wizard = wizard_us \<rparr>]"

definition sessions_canada :: "jsstring \<rightharpoonup> wizard session" where
  "sessions_canada = [demo_sid \<mapsto> \<lparr> msg_count = 3, wizard = wizard_canada \<rparr>]"

definition sessions_full :: "jsstring \<rightharpoonup> wizard session" where
  "sessions_full = [demo_sid \<mapsto> \<lparr> msg_count = 20, wizard = wizard_us \<rparr>]"

definition wizard_budget_p2 :: wizard_p2 where
  "wizard_budget_p2 =
     \<lparr> budget = Some 9000, countryCode = None, weeks = None, goal = None, started = True \<rparr>"

definition sessions_p2 :: "jsstring \<rightharpoonup> wizard_p2 session" where
  "sessions_p2 = [demo_sid \<mapsto> \<lparr> msg_count = 1, wizard = wizard_budget_p2 \<rparr>]"

text \<open>A new session, and a part_002 session with every slot but the goal set.\<close>

definition sessions_new :: "jsstring \<rightharpoonup> wizard session" where
  "sessions_new = [demo_sid \<mapsto> \<lparr> msg_count = 0, wizard = emptyWizard \<rparr>]"



definition sessions_llm :: "jsstring \<rightharpoonup> wizard_llm session" where
  "sessions_llm = [demo_sid \<mapsto> \<lparr> msg_count = 3, wizard = emptyWizard_llm \<rparr>]"

text \<open>An output with \<open>updatedWizard\<close> and \<open>action\<close> but no \<open>reply\<close>.\<close>

definition output_without_reply :: control where
  "output_without_reply =
     \<lparr> updatedWizard =
         Some \<lparr> u_budget = Some (Some 9000), u_countryCode = None, u_weeks = None,
                u_goal = None, u_city = None \<rparr>,
       action = Some (js ''ask_more''), reply = None \<rparr>"

definition model_without_reply :: "wizard_llm \<Rightarrow> jsstring \<Rightarrow> llm_output" where
  "model_without_reply w text = JsonObject output_without_reply"

text \<open>An output with \<open>action\<close> and \<open>reply\<close> but no \<open>updatedWizard\<close>.\<close>

definition model_without_slots :: "wizard_llm \<Rightarrow> jsstring \<Rightarrow> llm_output" where
  "model_without_slots w text =
     JsonObject \<lparr> updatedWizard = None, action = Some (js ''ready_to_compare''),
                  reply = Some (js ''Ecco'') \<rparr>"

section \<open>Properties of the comparison engine\<close>

lemma total_cost_priced:
  "total_cost (priced b w p) = tuition_per_week p * w + housing_per_week p * w + fees p"
  by (simp add: priced_def Let_def)

lemma fitsBudget_priced:
  "fitsBudget (priced b w p) = (total_cost (priced b w p) \<le> b)"
  by (simp add: priced_def Let_def)

lemma ratio_nonpos_iff: "0 < b \<Longrightarrow> ((t - b) / b \<le> 0) = (t \<le> (b::rat))"
  by (simp add: divide_le_0_iff)

lemma floor_rat_numeral:
  "\<lfloor>numeral a / numeral b :: rat\<rfloor> = numeral a div numeral b"
  using floor_divide_of_int_eq [of "numeral a" "numeral b", where ?'a = rat] by simp

lemmas dbl_eval = floor_rat_numeral toDouble_def roundPos_def binade_def roundHalfEven_def Let_def
  lgUp.simps lgDown.simps

lemma toDouble_tenth: "toDouble (1 / 10) = Fin (3602879701896397 / 2 ^ 55)"
  by (simp add: dbl_eval)

lemma toDouble_fifth: "toDouble (2 / 10) = Fin (3602879701896397 / 2 ^ 54)"
  by (simp add: dbl_eval)

lemma toDouble_three_tenths: "toDouble (3 / 10) = Fin (5404319552844595 / 2 ^ 54)"
  by (simp add: dbl_eval)

lemma toDouble_half: "toDouble (5 / 10) = Fin (1 / 2)"
  by (simp add: dbl_eval)

text \<open>
  Rounding at work: one third, two ties above \<open>2^53\<close> that go to the even neighbour, and
  a negative number.
\<close>

lemma toDouble_examples:
  "toDouble (1 / 3) = Fin (6004799503160661 / 2 ^ 54) \<and>
   toDouble 9007199254740993 = Fin 9007199254740992 \<and>
   toDouble 9007199254740995 = Fin 9007199254740996 \<and>
   toDouble (- (5 / 3)) = Fin (- (7505999378950827 / 2 ^ 52))"
  by (simp add: dbl_eval)

lemma lgUp_spec: "1 \<le> x \<Longrightarrow> 2 ^ lgUp x \<le> x \<and> x < 2 * 2 ^ lgUp x"
proof (induction x rule: lgUp.induct)
  case (1 x)
  show ?case
  proof (cases "x < 2")
    case True
    then have "lgUp x = 0" by (subst lgUp.simps) simp
    with True 1(2) show ?thesis by simp
  next
    case False
    then have eq: "lgUp x = Suc (lgUp (x / 2))" by (subst lgUp.simps) simp
    from False have "1 \<le> x / 2" by simp
    with 1(1) False have "2 ^ lgUp (x / 2) \<le> x / 2 \<and> x / 2 < 2 * 2 ^ lgUp (x / 2)" by simp
    then show ?thesis unfolding eq by simp
  qed
qed

lemma lgDown_spec:
  "0 < x \<Longrightarrow> x < 1 \<Longrightarrow> 1 \<le> x * 2 ^ lgDown x \<and> x * 2 ^ lgDown x < 2"
proof (induction x rule: lgDown.induct)
  case (1 x)
  from 1(2,3) have nb: "\<not> (x \<le> 0 \<or> 1 \<le> x)" by simp
  then have eq: "lgDown x = Suc (lgDown (2 * x))" by (subst lgDown.simps) simp
  show ?case
  proof (cases "2 * x < 1")
    case True
    with 1(1) [OF nb] 1(2)
    have "1 \<le> 2 * x * 2 ^ lgDown (2 * x) \<and> 2 * x * 2 ^ lgDown (2 * x) < 2" by simp
    then show ?thesis unfolding eq by (simp add: mult.assoc mult.left_commute)
  next
    case False
    then have "lgDown (2 * x) = 0" by (subst lgDown.simps) simp
    with False 1(3) show ?thesis unfolding eq by simp
  qed
qed

lemma binade_spec:
  assumes "0 < x"
  shows "2 powi binade x \<le> x \<and> x < 2 powi (binade x + 1)"
proof (cases "1 \<le> x")
  case True
  then have b: "binade x = int (lgUp x)" by (simp add: binade_def)
  have "2 powi (int (lgUp x) + 1) = (2::rat) * 2 ^ lgUp x"
    by (simp add: power_int_add)
  with lgUp_spec [OF True] show ?thesis unfolding b by simp
next
  case False
  then have x1: "x < 1" by simp
  from False have b: "binade x = - int (lgDown x)" by (simp add: binade_def)
  have p: "(0::rat) < 2 ^ lgDown x" by simp
  have e1: "2 powi (- int (lgDown x)) = 1 / (2::rat) ^ lgDown x"
    by (simp add: power_int_minus_divide)
  have e2: "2 powi (- int (lgDown x) + 1) = 2 / (2::rat) ^ lgDown x"
    by (simp add: power_int_diff)
  from lgDown_spec [OF assms x1] p show ?thesis
    unfolding b e1 e2 by (simp add: field_simps)
qed

lemma roundHalfEven_err: "\<bar>of_int (roundHalfEven y) - y\<bar> \<le> (1 / 2 :: rat)"
proof -
  have "of_int \<lfloor>y\<rfloor> \<le> y" "y < of_int \<lfloor>y\<rfloor> + 1" by linarith+
  then show ?thesis by (simp add: roundHalfEven_def Let_def)
qed

lemma roundHalfEven_int: "roundHalfEven (of_int k) = k"
  by (simp add: roundHalfEven_def)

lemma roundPos_err:
  assumes x: "2 powi (- 1022) \<le> x"
  shows "\<bar>roundPos x - x\<bar> \<le> x / 2 ^ 53"
proof -
  have x0: "0 < x" using x zero_less_power_int [of "2::rat" "- 1022"] by linarith
  define b where "b = binade x"
  from binade_spec [OF x0] have lo: "2 powi b \<le> x" and hi: "x < 2 powi (b + 1)"
    by (simp_all add: b_def)
  have "\<not> b + 1 \<le> - 1022"
  proof
    assume "b + 1 \<le> - 1022"
    then have "(2::rat) powi (b + 1) \<le> 2 powi (- 1022)" by (rule power_int_increasing) simp
    with hi x show False by linarith
  qed
  then have q: "max (b - 52) (- 1074) = b - 52" by simp
  define s :: rat where "s = 2 powi (b - 52)"
  have s0: "0 < s" by (simp add: s_def)
  have s2: "s = 2 powi b / 2 ^ 52" by (simp add: s_def power_int_diff)
  define m where "m = roundHalfEven (x / s)"
  have rp: "roundPos x = of_int m * s"
    by (simp add: roundPos_def Let_def q m_def s_def flip: b_def)
  have "\<bar>of_int m - x / s\<bar> \<le> 1 / 2" unfolding m_def by (rule roundHalfEven_err)
  then have "\<bar>of_int m - x / s\<bar> * s \<le> 1 / 2 * s" using s0 by (simp only: mult_le_cancel_right_pos)
  moreover have "\<bar>of_int m * s - x\<bar> = \<bar>(of_int m - x / s) * s\<bar>"
    using s0 by (simp add: left_diff_distrib)
  moreover have "\<bar>(of_int m - x / s) * s\<bar> = \<bar>of_int m - x / s\<bar> * s"
    using s0 by (simp add: abs_mult)
  ultimately have "\<bar>of_int m * s - x\<bar> \<le> s / 2" by simp
  also have "s / 2 = 2 powi b / 2 ^ 53" by (simp add: s2)
  also have "\<dots> \<le> x / 2 ^ 53" using lo by (simp add: divide_right_mono)
  finally show ?thesis by (simp add: rp)
qed

lemma of_int_below: "k < 2 ^ 53 \<Longrightarrow> (of_int k :: rat) < 2 ^ 53"
proof -
  assume "k < 2 ^ 53"
  then have "(of_int k :: rat) < of_int (2 ^ 53)" by (simp only: of_int_less_iff)
  then show ?thesis by simp
qed

lemma roundPos_int:
  assumes k: "0 < k" "k < 2 ^ 53"
  shows "roundPos (of_int k) = of_int k"
proof -
  have one: "(1::rat) \<le> of_int k" using k by simp
  define n where "n = lgUp (of_int k)"
  have b: "binade (of_int k) = int n" using one by (simp add: binade_def n_def)
  from lgUp_spec [OF one] have "(2::rat) ^ n \<le> of_int k" by (simp add: n_def)
  also have "\<dots> < 2 ^ 53" using k(2) by (rule of_int_below)
  finally have lt: "(2::rat) ^ n < 2 ^ 53" .
  have "n < 53" by (rule power_less_imp_less_exp [OF _ lt]) simp
  then have q: "max (int n - 52) (- 1074) = - int (52 - n)" by simp
  have pw: "(2::rat) powi (- int (52 - n)) = 1 / 2 ^ (52 - n)"
    by (simp add: power_int_minus_divide)
  have "of_int k / (1 / 2 ^ (52 - n)) = (of_int (k * 2 ^ (52 - n)) :: rat)" by simp
  then show ?thesis
    unfolding roundPos_def Let_def b q pw by (simp only: roundHalfEven_int) simp
qed

lemma toDouble_int:
  assumes "\<bar>k\<bar> < 2 ^ 53"
  shows "toDouble (of_int k) = Fin (of_int k)"
proof -
  have big: "\<not> (2::rat) powi 1024 \<le> of_int j" if "j < 2 ^ 53" for j :: int
  proof -
    have "(of_int j :: rat) < 2 ^ 53" using that by (rule of_int_below)
    moreover have "(2::rat) ^ 53 \<le> 2 powi 1024" by simp
    ultimately show ?thesis by linarith
  qed
  consider "k = 0" | "0 < k" | "k < 0" by linarith
  then show ?thesis
  proof cases
    case 1 then show ?thesis by (simp add: toDouble_def)
  next
    case 2
    with assms have "k < 2 ^ 53" by simp
    with 2 roundPos_int [of k] big [of k] show ?thesis by (simp add: toDouble_def Let_def)
  next
    case 3
    with assms have "- k < 2 ^ 53" "0 < - k" by simp_all
    with 3 roundPos_int [of "- k"] big [of "- k"] show ?thesis
      by (simp add: toDouble_def Let_def)
  qed
qed

lemma toDouble_err:
  assumes "2 powi (- 1022) \<le> x" "x < 2 ^ 1023"
  shows "\<exists>y. toDouble x = Fin y \<and> \<bar>y - x\<bar> \<le> x / 2 ^ 53"
proof -
  have x0: "0 < x" using assms(1) zero_less_power_int [of "2::rat" "- 1022"] by linarith
  from roundPos_err [OF assms(1)] have e: "\<bar>roundPos x - x\<bar> \<le> x / 2 ^ 53" .
  have "x / 2 ^ 53 \<le> x" using x0 by (simp add: field_simps)
  with e have "roundPos x \<le> 2 * x" by linarith
  also have "\<dots> < 2 ^ 1024" using assms(2) by simp
  finally have "\<not> 2 powi 1024 \<le> roundPos x" by simp
  with x0 e show ?thesis by (simp add: toDouble_def Let_def)
qed

lemma gap_below:
  fixes d b n :: int
  assumes b: "0 < b" "b \<le> 10 ^ 15"
    and lt: "of_int d / of_int b < (of_int n / 10 :: rat)"
  shows "of_int d / of_int b \<le> (of_int n / 10 - 1 / 10 ^ 16 :: rat)"
proof -
  have b0: "(0::rat) < of_int b" using b by simp
  from lt b0 have "(of_int d * 10 :: rat) < of_int n * of_int b" by (simp add: field_simps)
  then have "(of_int (d * 10) :: rat) < of_int (n * b)" by simp
  then have "d * 10 < n * b" by (simp only: of_int_less_iff)
  then have "d * 10 + 1 \<le> n * b" by simp
  then have "(of_int (d * 10 + 1) :: rat) \<le> of_int (n * b)" by (simp only: of_int_le_iff)
  then have le: "(of_int d * 10 + 1 :: rat) \<le> of_int n * of_int b" by simp
  have "(of_int b :: rat) \<le> of_int (10 ^ 15)" using b by (simp only: of_int_le_iff)
  then have b15: "(of_int b :: rat) \<le> 10 ^ 15" by simp
  have "(of_int d * 10 + 1) / (10 * of_int b) \<le> (of_int n * of_int b / (10 * of_int b) :: rat)"
    using le b0 by (simp only: divide_right_mono)
  moreover have "(of_int d * 10 + 1) / (10 * of_int b) = (of_int d / of_int b + 1 / (10 * of_int b) :: rat)"
    using b0 by (simp add: add_divide_distrib)
  moreover have "(of_int n * of_int b / (10 * of_int b) :: rat) = of_int n / 10"
    using b0 by simp
  ultimately have "of_int d / of_int b \<le> (of_int n / 10 - 1 / (10 * of_int b) :: rat)"
    by linarith
  moreover have "1 / (10 ^ 16 :: rat) \<le> 1 / (10 * of_int b)"
    using b0 b15 by (simp add: field_simps)
  ultimately show ?thesis by linarith
qed

lemma gap_above:
  fixes d b n :: int
  assumes b: "0 < b" "b \<le> 10 ^ 15"
    and lt: "(of_int n / 10 :: rat) < of_int d / of_int b"
  shows "(of_int n / 10 + 1 / 10 ^ 16 :: rat) \<le> of_int d / of_int b"
proof -
  have b0: "(0::rat) < of_int b" using b by simp
  from lt b0 have "(of_int n * of_int b :: rat) < of_int d * 10" by (simp add: field_simps)
  then have "(of_int (n * b) :: rat) < of_int (d * 10)" by simp
  then have "n * b < d * 10" by (simp only: of_int_less_iff)
  then have "n * b + 1 \<le> d * 10" by simp
  then have "(of_int (n * b + 1) :: rat) \<le> of_int (d * 10)" by (simp only: of_int_le_iff)
  then have le: "(of_int n * of_int b + 1 :: rat) \<le> of_int d * 10" by simp
  have "(of_int b :: rat) \<le> of_int (10 ^ 15)" using b by (simp only: of_int_le_iff)
  then have b15: "(of_int b :: rat) \<le> 10 ^ 15" by simp
  have "(of_int n * of_int b + 1) / (10 * of_int b) \<le> (of_int d * 10 / (10 * of_int b) :: rat)"
    using le b0 by (simp only: divide_right_mono)
  moreover have "(of_int n * of_int b + 1) / (10 * of_int b) = (of_int n / 10 + 1 / (10 * of_int b) :: rat)"
    using b0 by (simp add: add_divide_distrib)
  moreover have "(of_int d * 10 / (10 * of_int b) :: rat) = of_int d / of_int b"
    using b0 by simp
  ultimately have "(of_int n / 10 + 1 / (10 * of_int b) :: rat) \<le> of_int d / of_int b"
    by linarith
  moreover have "1 / (10 ^ 16 :: rat) \<le> 1 / (10 * of_int b)"
    using b0 b15 by (simp add: field_simps)
  ultimately show ?thesis by linarith
qed

lemma threshold:
  fixes d b n :: int and y c K :: rat
  assumes b: "0 < b" "b \<le> 10 ^ 15"
    and y: "toDouble (of_int d / of_int b) = Fin y"
    and err: "\<bar>y - of_int d / of_int b\<bar> \<le> (of_int d / of_int b) / 2 ^ 53"
    and K: "K = of_int n / 10"
    and c: "toDouble K = Fin c"
    and lo: "K + K / 2 ^ 53 - 1 / 10 ^ 16 - 1 / 10 ^ 16 / 2 ^ 53 < c"
    and hi: "c < K - K / 2 ^ 53 + 1 / 10 ^ 16 - 1 / 10 ^ 16 / 2 ^ 53"
  shows "y < c \<longleftrightarrow> of_int d / of_int b < K"
proof -
  define r :: rat where "r = of_int d / of_int b"
  note y' = y [folded r_def] and err' = err [folded r_def]
  consider "r < K" | "r = K" | "K < r" by linarith
  then have "y < c \<longleftrightarrow> r < K"
  proof cases
    case 1
    then have "of_int d / of_int b < (of_int n / 10 :: rat)" unfolding r_def K .
    from gap_below [OF b this] have "r \<le> K - 1 / 10 ^ 16" unfolding r_def K .
    then have "r + r / 2 ^ 53 \<le> K + K / 2 ^ 53 - 1 / 10 ^ 16 - 1 / 10 ^ 16 / 2 ^ 53" by simp
    with err' lo have "y < c" by linarith
    with 1 show ?thesis by simp
  next
    case 2
    with y' c have "y = c" by simp
    with 2 show ?thesis by simp
  next
    case 3
    then have "(of_int n / 10 :: rat) < of_int d / of_int b" unfolding r_def K .
    from gap_above [OF b this] have "K + 1 / 10 ^ 16 \<le> r" unfolding r_def K .
    then have "K - K / 2 ^ 53 + 1 / 10 ^ 16 - 1 / 10 ^ 16 / 2 ^ 53 \<le> r - r / 2 ^ 53" by simp
    with err' hi have "c < y" by linarith
    with 3 show ?thesis by simp
  qed
  then show ?thesis unfolding r_def .
qed

lemma matchScore_whole:
  fixes t b :: int
  assumes b: "0 < b" "b \<le> 10 ^ 15" and t: "\<bar>t\<bar> \<le> 10 ^ 15"
  shows "matchScore (of_int t) (of_int b) =
     (let r = (of_int t - of_int b) / of_int b :: rat in
      if r \<le> 0 then 5
      else if r < 1 / 10 then 9 / 2
      else if r < 2 / 10 then 4
      else if r < 3 / 10 then 7 / 2
      else if r < 5 / 10 then 3
      else 5 / 2)"
proof -
  define d where "d = t - b"
  define r :: rat where "r = of_int d / of_int b"
  have b0: "(0::rat) < of_int b" using b by simp
  have "\<bar>d\<bar> < 2 ^ 53" using b t by (simp add: d_def)
  then have diff: "toDouble (of_int t - of_int b) = Fin (of_int d)"
    using toDouble_int [of d] by (simp add: d_def)
  show ?thesis
  proof (cases "d \<le> 0")
    case True
    then have "r \<le> 0" using b0 by (simp add: r_def divide_le_0_iff)
    with True show ?thesis
      by (simp add: matchScore_def diff fp_le_def Let_def r_def d_def)
  next
    case False
    then have d0: "0 < d" by simp
    then have r0: "0 < r" using b0 by (simp add: r_def)
    have "(of_int b :: rat) \<le> of_int (10 ^ 15)" using b by (simp only: of_int_le_iff)
    then have b15: "(of_int b :: rat) \<le> 10 ^ 15" by simp
    have "(1 :: rat) \<le> of_int d" using d0 by simp
    then have rlo: "1 / 10 ^ 15 \<le> r" using b0 b15 by (simp add: r_def field_simps) 
    have "d \<le> 2 * 10 ^ 15" using b t by (simp add: d_def)
    then have "(of_int d :: rat) \<le> of_int (2 * 10 ^ 15)" by (simp only: of_int_le_iff)
    then have d15: "(of_int d :: rat) \<le> 2 * 10 ^ 15" by simp
    have "(1 :: rat) \<le> of_int b" using b by simp
    then have "r \<le> of_int d" using d0 b0 by (simp add: r_def field_simps)
    with d15 have rhi: "r < 2 ^ 1023" by simp
    have "(2 :: rat) powi (- 1022) \<le> 1 / 10 ^ 15" by simp
    with rlo have "2 powi (- 1022) \<le> r" by linarith
    from toDouble_err [OF this rhi] obtain y where
      y: "toDouble r = Fin y" and err: "\<bar>y - r\<bar> \<le> r / 2 ^ 53" by blast
    note thr = threshold [OF b y [unfolded r_def] err [unfolded r_def]]
    have th1: "y < 3602879701896397 / 2 ^ 55 \<longleftrightarrow> r < 1 / 10"
      unfolding r_def by (rule thr [where n = 1]) (simp_all add: toDouble_tenth)
    have th2: "y < 3602879701896397 / 2 ^ 54 \<longleftrightarrow> r < 2 / 10"
      unfolding r_def by (rule thr [where n = 2]) (simp_all add: toDouble_fifth [simplified])
    have th3: "y < 5404319552844595 / 2 ^ 54 \<longleftrightarrow> r < 3 / 10"
      unfolding r_def by (rule thr [where n = 3]) (simp_all add: toDouble_three_tenths)
    have th5: "y < 1 / 2 \<longleftrightarrow> r < 5 / 10"
      unfolding r_def by (rule thr [where n = 5]) (simp_all add: toDouble_half [simplified])
    have nle: "\<not> fp_le (Fin (of_int d)) (Fin 0)" using d0 by (simp add: fp_le_def)
    have dv: "fp_div (Fin (of_int d)) (of_int b) = Fin y" using b0 y by (simp add: r_def)
    have "matchScore (of_int t) (of_int b) =
       (if r < 1 / 10 then 9 / 2
        else if r < 2 / 10 then 4
        else if r < 3 / 10 then 7 / 2
        else if r < 5 / 10 then 3
        else 5 / 2)"
      unfolding matchScore_def Let_def diff
      by (simp only: nle dv if_False toDouble_tenth toDouble_fifth toDouble_three_tenths
            toDouble_half fp_less.simps th1 th2 th3 th5)
    with r0 show ?thesis by (simp add: Let_def r_def d_def)
  qed
qed

text \<open>
  Claim C1, as amended. \<open>fitsBudget\<close> of a priced candidate holds exactly when its
  computed total is at most the budget. For whole amounts \<open>t\<close> and \<open>b\<close> with
  \<open>0 < b \<le> 10^15\<close> and \<open>|t| \<le> 10^15\<close>, \<open>matchScore t b\<close> is 5 when \<open>t \<le> b\<close>, 4.5 when the
  ratio \<open>(t - b) / b\<close> is positive and below 0.10, 4 from 0.10 and below 0.20, 3.5 from
  0.20 and below 0.30, 3 from 0.30 and below 0.50, and 2.5 from 0.50 on: there the
  rounding of the quotient and of the thresholds never moves the ratio across a
  threshold. The score shown on a card is \<open>matchScore\<close> of the card's total.
\<close>

theorem matchScore_steps:
  fixes t b :: int
  assumes "0 < b" and "b \<le> 10 ^ 15" and "\<bar>t\<bar> \<le> 10 ^ 15"
  shows
    "(fitsBudget (priced bud w p) \<longleftrightarrow> total_cost (priced bud w p) \<le> bud) \<and>
     (t \<le> b \<longrightarrow> matchScore (of_int t) (of_int b) = 5) \<and>
     (0 < (of_int t - of_int b) / (of_int b :: rat) \<and>
      (of_int t - of_int b) / (of_int b :: rat) < 1 / 10 \<longrightarrow>
        matchScore (of_int t) (of_int b) = 9 / 2) \<and>
     (1 / 10 \<le> (of_int t - of_int b) / (of_int b :: rat) \<and>
      (of_int t - of_int b) / (of_int b :: rat) < 2 / 10 \<longrightarrow>
        matchScore (of_int t) (of_int b) = 4) \<and>
     (2 / 10 \<le> (of_int t - of_int b) / (of_int b :: rat) \<and>
      (of_int t - of_int b) / (of_int b :: rat) < 3 / 10 \<longrightarrow>
        matchScore (of_int t) (of_int b) = 7 / 2) \<and>
     (3 / 10 \<le> (of_int t - of_int b) / (of_int b :: rat) \<and>
      (of_int t - of_int b) / (of_int b :: rat) < 5 / 10 \<longrightarrow>
        matchScore (of_int t) (of_int b) = 3) \<and>
     (5 / 10 \<le> (of_int t - of_int b) / (of_int b :: rat) \<longrightarrow>
        matchScore (of_int t) (of_int b) = 5 / 2) \<and>
     (\<forall>c \<in> set (cards programs bud). score c = matchScore (total_cost (card_program c)) bud)"
proof -
  have sc: "\<forall>c \<in> set (cards programs bud). score c = matchScore (total_cost (card_program c)) bud"
    by (auto simp: cards_def Let_def)
  define r :: rat where "r = (of_int t - of_int b) / of_int b"
  define m where "m = matchScore (of_int t) (of_int b)"
  have b0: "(0::rat) < of_int b" using assms(1) by simp
  have ms: "m =
     (if r \<le> 0 then 5 else if r < 1 / 10 then 9 / 2 else if r < 2 / 10 then 4
      else if r < 3 / 10 then 7 / 2 else if r < 5 / 10 then 3 else 5 / 2)"
    unfolding r_def m_def using matchScore_whole [OF assms] by (simp only: Let_def)
  have "(of_int t :: rat) \<le> of_int b \<longleftrightarrow> r \<le> 0"
    unfolding r_def using b0 by (simp only: ratio_nonpos_iff)
  then have le: "t \<le> b \<longleftrightarrow> r \<le> 0" by (simp only: of_int_le_iff)
  have "(t \<le> b \<longrightarrow> m = 5) \<and>
     (0 < r \<and> r < 1 / 10 \<longrightarrow> m = 9 / 2) \<and>
     (1 / 10 \<le> r \<and> r < 2 / 10 \<longrightarrow> m = 4) \<and>
     (2 / 10 \<le> r \<and> r < 3 / 10 \<longrightarrow> m = 7 / 2) \<and>
     (3 / 10 \<le> r \<and> r < 5 / 10 \<longrightarrow> m = 3) \<and>
     (5 / 10 \<le> r \<longrightarrow> m = 5 / 2)"
    unfolding ms le by auto
  then have steps: "(t \<le> b \<longrightarrow> matchScore (of_int t) (of_int b) = 5) \<and>
     (0 < (of_int t - of_int b) / (of_int b :: rat) \<and>
      (of_int t - of_int b) / (of_int b :: rat) < 1 / 10 \<longrightarrow>
        matchScore (of_int t) (of_int b) = 9 / 2) \<and>
     (1 / 10 \<le> (of_int t - of_int b) / (of_int b :: rat) \<and>
      (of_int t - of_int b) / (of_int b :: rat) < 2 / 10 \<longrightarrow>
        matchScore (of_int t) (of_int b) = 4) \<and>
     (2 / 10 \<le> (of_int t - of_int b) / (of_int b :: rat) \<and>
      (of_int t - of_int b) / (of_int b :: rat) < 3 / 10 \<longrightarrow>
        matchScore (of_int t) (of_int b) = 7 / 2) \<and>
     (3 / 10 \<le> (of_int t - of_int b) / (of_int b :: rat) \<and>
      (of_int t - of_int b) / (of_int b :: rat) < 5 / 10 \<longrightarrow>
        matchScore (of_int t) (of_int b) = 3) \<and>
     (5 / 10 \<le> (of_int t - of_int b) / (of_int b :: rat) \<longrightarrow>
        matchScore (of_int t) (of_int b) = 5 / 2)"
    unfolding r_def m_def .
  have fb: "fitsBudget (priced bud w p) \<longleftrightarrow> total_cost (priced bud w p) \<le> bud"
    by (rule fitsBudget_priced)
  from fb steps sc show ?thesis by (intro conjI) (elim conjE, assumption)+
qed

text \<open>
  The two boundary cases of the specification: a total of 10000 on a budget of 10000
  fits and scores 5; a total of 11500 (ratio 0.15) scores 4.
\<close>

theorem matchScore_steps_witness:
  "(0::int) < 10000 \<and> (10000::int) \<le> 10 ^ 15 \<and> \<bar>11500::int\<bar> \<le> 10 ^ 15 \<and>
   total_cost (priced 10000 24 demo_partner) = 10000 \<and>
   fitsBudget (priced 10000 24 demo_partner) \<and>
   matchScore 10000 10000 = 5 \<and>
   (11500 - 10000) / 10000 = (15 / 100 :: rat) \<and> matchScore 11500 10000 = 4 \<and>
   map score (cards [priced 10000 24 demo_partner] 10000) = [5]"
proof -
  have t: "total_cost (priced 10000 24 demo_partner) = 10000"
    by (simp add: total_cost_priced demo_partner_def)
  have l: "length (cards [priced 10000 24 demo_partner] 10000) = 1"
    by (simp add: cards_def)
  have p: "map card_program (cards [priced 10000 24 demo_partner] 10000) = [priced 10000 24 demo_partner]"
    by (simp add: cards_def Let_def)
  from l p obtain c0 where c0: "cards [priced 10000 24 demo_partner] 10000 = [c0]"
    and cp: "card_program c0 = priced 10000 24 demo_partner"
    by (cases "cards [priced 10000 24 demo_partner] 10000") auto
  from matchScore_steps [of 10000 10000 10000 24 demo_partner "[priced 10000 24 demo_partner]"]
       matchScore_steps [of 10000 11500 10000 24 demo_partner "[priced 10000 24 demo_partner]"]
       t c0 cp
  show ?thesis by simp
qed

text \<open>
  The claim as stated has no bound on the amounts. For a total of 3900000000000009 on a
  budget of 3000000000000007 the ratio lies between 0.20 and 0.30, strictly below 0.30,
  but the quotient rounds to the double that the literal \<open>0.3\<close> denotes, so the test
  \<open>ratio < 0.3\<close> fails and the score is 3, not 3.5.
\<close>

theorem matchScore_rounding_counterexample:
  "2 / 10 \<le> ((3900000000000009 - 3000000000000007) / 3000000000000007 :: rat) \<and>
   ((3900000000000009 - 3000000000000007) / 3000000000000007 :: rat) < 3 / 10 \<and>
   toDouble ((3900000000000009 - 3000000000000007) / 3000000000000007) = toDouble (3 / 10) \<and>
   matchScore 3900000000000009 3000000000000007 = 3 \<and>
   matchScore 3900000000000009 3000000000000007 \<noteq> 7 / 2"
  by (simp add: matchScore_def fp_le_def dbl_eval)









text \<open>
  Claim C9. When the read of the reference file throws (no such file, unknown country)
  or its content does not parse (corrupt file), \<open>loadPartners\<close> gives the empty array and
  \<open>comparePrograms\<close> returns the empty result; it does not raise, and a Ready turn for
  that country is answered with the no-partners reply, not with an error.
\<close>

theorem comparePrograms_load_failure:
  "files cc = ReadThrows \<or> files cc = ParseThrows \<Longrightarrow>
     loadPartners files cc = JArray [] \<and>
     comparePrograms files cc b w = Inr [] \<and>
     (ready wz \<and> countryCode wz = Some cc \<longrightarrow> guided_srv files wz = (Json ok NoPartners, wz))"
proof -
  assume f: "files cc = ReadThrows \<or> files cc = ParseThrows"
  have l: "loadPartners files cc = JArray []"
    using f by (auto simp: loadPartners_def)
  have c: "\<And>b w. comparePrograms files cc b w = Inr []"
    using l by (simp add: comparePrograms_def)
  have g: "ready wz \<and> countryCode wz = Some cc \<longrightarrow> guided_srv files wz = (Json ok NoPartners, wz)"
  proof
    assume r: "ready wz \<and> countryCode wz = Some cc"
    then have rd: "truthyNum (budget wz)" "truthyStr (countryCode wz)"
        "truthyNum (weeks wz)" "truthyStr (goal wz)"
      unfolding ready_def by blast+
    from r have k: "the (countryCode wz) = cc" by simp
    show "guided_srv files wz = (Json ok NoPartners, wz)"
      by (simp add: guided_srv_def rd k c)
  qed
  from l c g show ?thesis by blast
qed

theorem comparePrograms_load_failure_witness:
  "demo_files code_canada = ReadThrows \<and> loadPartners demo_files code_canada = JArray [] \<and>
   comparePrograms demo_files code_canada 9000 48 = Inr [] \<and>
   ready (wizard_canada\<lparr>goal := Some (js ''imparare'')\<rparr>) \<and>
   guided_srv demo_files (wizard_canada\<lparr>goal := Some (js ''imparare'')\<rparr>) =
     (Json ok NoPartners, wizard_canada\<lparr>goal := Some (js ''imparare'')\<rparr>)"
proof -
  have h: "demo_files code_canada = ReadThrows"
    by (simp add: demo_files_def code_canada_def code_us_def js_def)
  have r: "ready (wizard_canada\<lparr>goal := Some (js ''imparare'')\<rparr>)"
    by (simp add: ready_def wizard_canada_def truthyNum_def truthyStr_def code_canada_def js_def)
  have k: "countryCode (wizard_canada\<lparr>goal := Some (js ''imparare'')\<rparr>) = Some code_canada"
    by (simp add: wizard_canada_def)
  from comparePrograms_load_failure
         [where files = demo_files and cc = code_canada and b = 9000 and w = 48
            and wz = "wizard_canada\<lparr>goal := Some (js ''imparare'')\<rparr>"]
       h r k
  show ?thesis by simp
qed

section \<open>Properties of parseBudget\<close>









text \<open>
  The guard of the part_002 revision: a number is returned only if the lower-cased text
  carries a marker or the number is at least 100, and a turn in which nothing is
  returned leaves the budget slot as it was. The marker test is a substring test, so
  the \<open>euro\<close> inside \<open>Europa\<close> counts as a marker.
\<close>

lemma parseBudget_guard:
  "(parseBudget text = Some v \<longrightarrow> hasCurrency (toLowerCase text) \<or> 100 \<le> v) \<and>
   (parseBudget text = None \<longrightarrow> budget (fillSlots w text) = budget w)"
proof -
  have a: "parseBudget text = Some v \<longrightarrow> hasCurrency (toLowerCase text) \<or> 100 \<le> v"
    by (auto simp: parseBudget_def Let_def split: option.splits if_splits)
  have b: "parseBudget text = None \<longrightarrow> budget (fillSlots w text) = budget w"
    by (simp add: fillSlots_def Let_def truthyNum_def)
  from a b show ?thesis by blast
qed

lemma parseBudget_guard_examples:
  "parseBudget (js ''3 mesi'') = None \<and> parseBudget (js ''Ho 9000 euro'') = Some 9000 \<and>
   parseBudget (js ''3 mesi in Europa'') = Some 3"
  by code_simp




section \<open>Properties of the wizard handlers\<close>

lemma slotsKept_refl: "slotsKept w w"
  by (simp add: slotsKept_def)

lemma cards_eq_Nil: "cards programs b = [] \<longleftrightarrow> programs = []"
  by (cases programs) (simp_all add: cards_def)

subsection \<open>server.js handler\<close>

lemma chat_srv_invalid: "sid = [] \<or> msg = [] \<Longrightarrow> chat_srv llm files ss sid msg = (Status400, ss)"
  by (auto simp: chat_srv_def)

lemma chat_srv_limit:
  "sid \<noteq> [] \<Longrightarrow> msg \<noteq> [] \<Longrightarrow> ss sid = Some s \<Longrightarrow> MAX_MESSAGES_FREE \<le> msg_count s \<Longrightarrow>
     chat_srv llm files ss sid msg = (Json limit_reached LimitReply, ss)"
  by (simp add: chat_srv_def Let_def fun_upd_idem)

lemma chat_srv_turn:
  "sid \<noteq> [] \<Longrightarrow> msg \<noteq> [] \<Longrightarrow> ss sid = Some s \<Longrightarrow> msg_count s < MAX_MESSAGES_FREE \<Longrightarrow>
     chat_srv llm files ss sid msg =
       (fst (route_srv llm files (fillSlots_srv (wizard s) (trim msg)) (trim msg)),
        ss(sid \<mapsto> \<lparr> msg_count = msg_count s + 1,
                     wizard = snd (route_srv llm files (fillSlots_srv (wizard s) (trim msg)) (trim msg)) \<rparr>))"
  by (simp add: chat_srv_def Let_def case_prod_unfold)

lemma fillSlots_srv_kept: "slotsKept w (fillSlots_srv w text)"
  by (simp add: slotsKept_def fillSlots_srv_def Let_def)

lemma guided_srv_cases:
  "snd (guided_srv files w) = w \<or>
   (snd (guided_srv files w) = emptyWizard \<and> deliveredComparison (fst (guided_srv files w)))"
  by (simp add: guided_srv_def deliveredComparison_def cards_eq_Nil split: sum.splits)

lemma route_srv_cases:
  "snd (route_srv llm files w text) = w \<or>
   (snd (route_srv llm files w text) = emptyWizard \<and>
    deliveredComparison (fst (route_srv llm files w text)))"
  using guided_srv_cases[of files w]
  by (auto simp: route_srv_def split: llm_result.splits)

lemma route_srv_active: "wizardActive w \<Longrightarrow> route_srv llm files w text = guided_srv files w"
  by (simp add: route_srv_def)

lemma first_write_wins_srv:
  assumes "chat_srv llm files ss sid msg = (resp, ss')" and "ss sid = Some s"
  shows "\<exists>s'. ss' sid = Some s' \<and>
           (slotsKept (wizard s) (wizard s') \<or> (wizard s' = emptyWizard \<and> deliveredComparison resp))"
proof (cases "sid = [] \<or> msg = []")
  case True
  then show ?thesis using assms chat_srv_invalid[OF True, of llm files ss] slotsKept_refl by auto
next
  case valid: False
  show ?thesis
  proof (cases "MAX_MESSAGES_FREE \<le> msg_count s")
    case True
    then show ?thesis using assms valid chat_srv_limit[of sid msg ss s llm files] slotsKept_refl by auto
  next
    case False
    then have lt: "msg_count s < MAX_MESSAGES_FREE" by simp
    define w where "w = fillSlots_srv (wizard s) (trim msg)"
    have eq: "chat_srv llm files ss sid msg =
       (fst (route_srv llm files w (trim msg)),
        ss(sid \<mapsto> \<lparr> msg_count = msg_count s + 1, wizard = snd (route_srv llm files w (trim msg)) \<rparr>))"
      unfolding w_def using valid assms(2) lt by (intro chat_srv_turn) auto
    have k: "slotsKept (wizard s) w" unfolding w_def by (rule fillSlots_srv_kept)
    from route_srv_cases[of llm files w "trim msg"] k eq assms(1) show ?thesis by auto
  qed
qed

subsection \<open>part_002 handler\<close>

lemma chat_p2_invalid: "sid = [] \<or> msg = [] \<Longrightarrow> chat_p2 llm files ss sid msg = (Status400, ss)"
  by (auto simp: chat_p2_def)

lemma chat_p2_limit:
  "sid \<noteq> [] \<Longrightarrow> msg \<noteq> [] \<Longrightarrow> ss sid = Some s \<Longrightarrow> MAX_MESSAGES_FREE \<le> msg_count s \<Longrightarrow>
     chat_p2 llm files ss sid msg = (Json limit_reached LimitReply, ss)"
  by (simp add: chat_p2_def Let_def fun_upd_idem)

lemma chat_p2_turn:
  "sid \<noteq> [] \<Longrightarrow> msg \<noteq> [] \<Longrightarrow> ss sid = Some s \<Longrightarrow> msg_count s < MAX_MESSAGES_FREE \<Longrightarrow>
     chat_p2 llm files ss sid msg =
       (fst (route llm files (fillSlots (wizard s) (trim msg)) (trim msg)),
        ss(sid \<mapsto> \<lparr> msg_count = msg_count s + 1,
                     wizard = snd (route llm files (fillSlots (wizard s) (trim msg)) (trim msg)) \<rparr>))"
  by (simp add: chat_p2_def Let_def case_prod_unfold)

lemma fillSlots_kept: "slotsKept w (fillSlots w text)"
  by (simp add: slotsKept_def fillSlots_def Let_def)

lemma guided_cases:
  "slotsKept w (snd (guided files w)) \<or>
   (snd (guided files w) = emptyWizard_p2 \<and> deliveredComparison (fst (guided files w)))"
  by (simp add: guided_def Let_def slotsKept_def deliveredComparison_def cards_eq_Nil split: sum.splits)

lemma route_cases:
  "slotsKept w (snd (route llm files w text)) \<or>
   (snd (route llm files w text) = emptyWizard_p2 \<and>
    deliveredComparison (fst (route llm files w text)))"
  using guided_cases[of w files]
  by (auto simp: route_def slotsKept_refl split: llm_result.splits)

lemma slotsKept_trans: "slotsKept a b \<Longrightarrow> slotsKept b c \<Longrightarrow> slotsKept a c"
  by (auto simp: slotsKept_def)

lemma first_write_wins_p2:
  assumes "chat_p2 llm files ss sid msg = (resp, ss')" and "ss sid = Some s"
  shows "\<exists>s'. ss' sid = Some s' \<and>
           (slotsKept (wizard s) (wizard s') \<or> (wizard s' = emptyWizard_p2 \<and> deliveredComparison resp))"
proof (cases "sid = [] \<or> msg = []")
  case True
  then show ?thesis using assms chat_p2_invalid[OF True, of llm files ss] slotsKept_refl by auto
next
  case valid: False
  show ?thesis
  proof (cases "MAX_MESSAGES_FREE \<le> msg_count s")
    case True
    then show ?thesis using assms valid chat_p2_limit[of sid msg ss s llm files] slotsKept_refl by auto
  next
    case False
    then have lt: "msg_count s < MAX_MESSAGES_FREE" by simp
    define w where "w = fillSlots (wizard s) (trim msg)"
    have eq: "chat_p2 llm files ss sid msg =
       (fst (route llm files w (trim msg)),
        ss(sid \<mapsto> \<lparr> msg_count = msg_count s + 1, wizard = snd (route llm files w (trim msg)) \<rparr>))"
      unfolding w_def using valid assms(2) lt by (intro chat_p2_turn) auto
    have k: "slotsKept (wizard s) w" unfolding w_def by (rule fillSlots_kept)
    from route_cases[of w llm files "trim msg"] k eq assms(1) slotsKept_trans[OF k] show ?thesis by auto
  qed
qed



subsection \<open>part_000 handler\<close>



subsection \<open>Worked examples\<close>

lemma demo_sid_ne: "demo_sid \<noteq> []"
  by (simp add: demo_sid_def js_def)

lemma codes_differ: "code_canada \<noteq> code_us"
  by (simp add: code_canada_def code_us_def js_def)


lemma nothing_detected:
  "parseBudget_srv (js ''imparare'') = None \<and> parseCountryCode_srv (js ''imparare'') = None \<and>
   parseWeeks_srv (js ''imparare'') = None"
  by code_simp

lemma cmp_canada: "comparePrograms demo_files code_canada b w = Inr []"
  using codes_differ by (simp add: comparePrograms_def loadPartners_def demo_files_def)

lemma wizard_canada_slots:
  "truthyNum (budget wizard_canada) \<and> truthyStr (countryCode wizard_canada) \<and>
   truthyNum (weeks wizard_canada) \<and> \<not> truthyStr (goal wizard_canada)"
  by (simp add: wizard_canada_def truthyNum_def truthyStr_def code_canada_def js_def)

lemma sessions_canada_sid:
  "sessions_canada demo_sid = Some \<lparr> msg_count = 3, wizard = wizard_canada \<rparr>"
  by (simp add: sessions_canada_def)

lemma chat_llm_limit:
  "sid \<noteq> [] \<Longrightarrow> msg \<noteq> [] \<Longrightarrow> ss sid = Some s \<Longrightarrow> MAX_MESSAGES_FREE \<le> msg_count s \<Longrightarrow>
     chat_llm model files ss sid msg = (Json limit_reached LimitReply, ss)"
  by (simp add: chat_llm_def Let_def fun_upd_idem)

text \<open>
  Claim C3. A turn is a request that passes the handler's check of \<open>sessionId\<close> and
  \<open>message\<close>. For a session whose counter has reached the limit of 20, a further turn is
  answered with type \<open>limit_reached\<close> and the session store is returned as it was: no
  slot changes and the counter is not incremented. This holds for the handler of
  server.js and in the same way for the two later handlers. A request with an empty
  message is refused before the quota test (status 400); it leaves the store as it was
  too.
\<close>

theorem quota_blocks_turn:
  assumes "sid \<noteq> []" and "msg \<noteq> []" and "MAX_MESSAGES_FREE \<le> n"
  shows "MAX_MESSAGES_FREE = 20 \<and>
         (sessions sid = Some \<lparr> msg_count = n, wizard = w \<rparr> \<longrightarrow>
            chat_srv llm files sessions sid msg = (Json limit_reached LimitReply, sessions)) \<and>
         (sessions sid = Some \<lparr> msg_count = n, wizard = w \<rparr> \<longrightarrow>
            snd (chat_srv llm files sessions sid []) = sessions) \<and>
         (sessions_b sid = Some \<lparr> msg_count = n, wizard = wb \<rparr> \<longrightarrow>
            chat_p2 llm files sessions_b sid msg = (Json limit_reached LimitReply, sessions_b)) \<and>
         (sessions_c sid = Some \<lparr> msg_count = n, wizard = wc \<rparr> \<longrightarrow>
            chat_llm model files sessions_c sid msg = (Json limit_reached LimitReply, sessions_c))"
proof -
  have lim: "MAX_MESSAGES_FREE = 20"
    by (simp add: MAX_MESSAGES_FREE_def)
  have q: "\<And>x. MAX_MESSAGES_FREE \<le> msg_count \<lparr> msg_count = n, wizard = x \<rparr>"
    using assms(3) by simp
  have a: "sessions sid = Some \<lparr> msg_count = n, wizard = w \<rparr> \<longrightarrow>
            chat_srv llm files sessions sid msg = (Json limit_reached LimitReply, sessions)"
    using chat_srv_limit[where ss = sessions and sid = sid, OF assms(1,2) _ q] by blast
  have a': "sessions sid = Some \<lparr> msg_count = n, wizard = w \<rparr> \<longrightarrow>
            snd (chat_srv llm files sessions sid []) = sessions"
    by (simp add: chat_srv_invalid)
  have b: "sessions_b sid = Some \<lparr> msg_count = n, wizard = wb \<rparr> \<longrightarrow>
            chat_p2 llm files sessions_b sid msg = (Json limit_reached LimitReply, sessions_b)"
    using chat_p2_limit[where ss = sessions_b and sid = sid, OF assms(1,2) _ q] by blast
  have c: "sessions_c sid = Some \<lparr> msg_count = n, wizard = wc \<rparr> \<longrightarrow>
            chat_llm model files sessions_c sid msg = (Json limit_reached LimitReply, sessions_c)"
    using chat_llm_limit[where ss = sessions_c and sid = sid, OF assms(1,2) _ q] by blast
  from lim a a' b c show ?thesis by blast
qed

text \<open>A session at 20 messages: the reply is the limit reply and the session is as before.\<close>

theorem quota_blocks_turn_witness:
  "sessions_full demo_sid = Some \<lparr> msg_count = 20, wizard = wizard_us \<rparr> \<and>
   MAX_MESSAGES_FREE \<le> 20 \<and>
   fst (chat_srv demo_llm demo_files sessions_full demo_sid (js ''Ho 9000 euro'')) =
     Json limit_reached LimitReply \<and>
   snd (chat_srv demo_llm demo_files sessions_full demo_sid (js ''Ho 9000 euro'')) demo_sid =
     Some \<lparr> msg_count = 20, wizard = wizard_us \<rparr>"
proof -
  have s: "sessions_full demo_sid = Some \<lparr> msg_count = 20, wizard = wizard_us \<rparr>"
    by (simp add: sessions_full_def)
  have m: "js ''Ho 9000 euro'' \<noteq> []" by (simp add: js_def)
  have q: "MAX_MESSAGES_FREE \<le> 20"
    by (simp add: MAX_MESSAGES_FREE_def)
  from quota_blocks_turn
         [where sessions = sessions_full and sid = demo_sid and msg = "js ''Ho 9000 euro''"
            and llm = demo_llm and files = demo_files and n = 20 and w = wizard_us,
          OF demo_sid_ne m q] s q
  show ?thesis by simp
qed

lemma trim_tre_mesi: "trim (js ''3 mesi'') = js ''3 mesi''"
  by (simp add: trim_def js_def isWhiteSpace_def)

lemma weeks_tre_mesi: "parseWeeks_srv (js ''3 mesi'') = Some 12"
  by (simp add: parseWeeks_srv_def js_def toLowerCase_def lowerUnit_def str_includes.simps
      Let_def unitAlternatives_srv_def firstPrefix_def isDigit_def isWhiteSpace_def parseInt_def)

lemma country_tre_mesi: "parseCountryCode_srv (js ''3 mesi'') = None"
  by code_simp

lemma sessions_new_sid:
  "sessions_new demo_sid = Some \<lparr> msg_count = 0, wizard = emptyWizard \<rparr>"
  by (simp add: sessions_new_def)

text \<open>
  Claim C4. The \<open>parseBudget\<close> of server.js (lines 332-337) has no guard: it returns the
  first number whatever its size and whatever else the text says. On \<open>3 mesi\<close>, which
  carries no currency marker, it returns 3; the handler of server.js stores 3 as the
  budget (and 12 weeks as the duration) and goes on to ask for the country with a
  budget of 3 euros. The \<open>parseBudget\<close> of part_002, whose comment says that it ignores
  small numbers such as \<open>3 mesi\<close>, returns nothing on the same text.
\<close>

theorem parseBudget_srv_accepts_duration:
  "\<not> hasCurrency (toLowerCase (js ''3 mesi'')) \<and>
   parseBudget_srv (js ''3 mesi'') = Some 3 \<and>
   fillSlots_srv emptyWizard (js ''3 mesi'') = emptyWizard\<lparr>budget := Some 3, weeks := Some 12\<rparr> \<and>
   chat_srv demo_llm demo_files sessions_new demo_sid (js ''3 mesi'') =
     (Json ok (AskCountry 3),
      sessions_new(demo_sid \<mapsto>
        \<lparr> msg_count = 1, wizard = emptyWizard\<lparr>budget := Some 3, weeks := Some 12\<rparr> \<rparr>)) \<and>
   parseBudget (js ''3 mesi'') = None"
proof -
  have h: "\<not> hasCurrency (toLowerCase (js ''3 mesi''))" by code_simp
  have b: "parseBudget_srv (js ''3 mesi'') = Some 3" by code_simp
  have p: "parseBudget (js ''3 mesi'') = None" by code_simp
  have f: "fillSlots_srv emptyWizard (js ''3 mesi'') =
      emptyWizard\<lparr>budget := Some 3, weeks := Some 12\<rparr>"
    by (simp add: fillSlots_srv_def Let_def b country_tre_mesi weeks_tre_mesi emptyWizard_def
        truthyNum_def truthyStr_def)
  have a: "wizardActive (emptyWizard\<lparr>budget := Some 3, weeks := Some 12\<rparr>)"
    by (simp add: wizardActive_def truthyNum_def)
  have g: "guided_srv demo_files (emptyWizard\<lparr>budget := Some 3, weeks := Some 12\<rparr>) =
      (Json ok (AskCountry 3), emptyWizard\<lparr>budget := Some 3, weeks := Some 12\<rparr>)"
    by (simp add: guided_srv_def emptyWizard_def truthyNum_def truthyStr_def)
  have m: "js ''3 mesi'' \<noteq> []" by (simp add: js_def)
  have q: "msg_count \<lparr> msg_count = 0, wizard = emptyWizard \<rparr> < MAX_MESSAGES_FREE"
    by (simp add: MAX_MESSAGES_FREE_def)
  have c: "chat_srv demo_llm demo_files sessions_new demo_sid (js ''3 mesi'') =
     (Json ok (AskCountry 3),
      sessions_new(demo_sid \<mapsto>
        \<lparr> msg_count = 1, wizard = emptyWizard\<lparr>budget := Some 3, weeks := Some 12\<rparr> \<rparr>))"
    using chat_srv_turn[where ss = sessions_new and sid = demo_sid and llm = demo_llm
        and files = demo_files, OF demo_sid_ne m sessions_new_sid q]
    by (simp add: trim_tre_mesi f route_srv_active[OF a] g)
  from h b f c p show ?thesis by simp
qed












text \<open>
  Claim C6. In a turn of either deterministic handler (server.js and part_002), every
  slot that was set before the turn has the same value after it, unless the turn
  delivered a comparison with results and reset the wizard.
\<close>

theorem first_write_wins:
  "(chat_srv llm files ss sid msg = (resp, ss') \<and> ss sid = Some s \<longrightarrow>
      (\<exists>s'. ss' sid = Some s' \<and>
         (slotsKept (wizard s) (wizard s') \<or>
          (wizard s' = emptyWizard \<and> deliveredComparison resp)))) \<and>
   (chat_p2 llm files tt sid msg = (respb, tt') \<and> tt sid = Some t \<longrightarrow>
      (\<exists>s'. tt' sid = Some s' \<and>
         (slotsKept (wizard t) (wizard s') \<or>
          (wizard s' = emptyWizard_p2 \<and> deliveredComparison respb))))"
  using first_write_wins_srv[of llm files ss sid msg resp ss' s]
        first_write_wins_p2[of llm files tt sid msg respb tt' t]
  by blast

lemma no_duration_other_budget:
  "parseWeeks_srv (js ''Ho 5000 euro'') = None \<and> parseWeeks (js ''Ho 5000 euro'') = None"
  by (simp add: parseWeeks_srv_def parseWeeks_def js_def toLowerCase_def lowerUnit_def
      isDigit_def isWhiteSpace_def firstPrefix_def unitAlternatives_srv_def
      unitAlternatives_def Let_def)

lemma budget_other_budget:
  "parseBudget_srv (js ''Ho 5000 euro'') = Some 5000 \<and>
   parseCountryCode_srv (js ''Ho 5000 euro'') = None \<and>
   parseBudget (js ''Ho 5000 euro'') = Some 5000 \<and>
   parseCountryCode (js ''Ho 5000 euro'') = None \<and>
   parseGoal (js ''Ho 5000 euro'') = None"
  by code_simp

lemma detected_other_budget:
  "parseBudget_srv (js ''Ho 5000 euro'') = Some 5000 \<and>
   parseCountryCode_srv (js ''Ho 5000 euro'') = None \<and>
   parseWeeks_srv (js ''Ho 5000 euro'') = None \<and>
   parseBudget (js ''Ho 5000 euro'') = Some 5000 \<and>
   parseCountryCode (js ''Ho 5000 euro'') = None \<and>
   parseWeeks (js ''Ho 5000 euro'') = None \<and>
   parseGoal (js ''Ho 5000 euro'') = None"
  using no_duration_other_budget budget_other_budget by blast

lemma trim_other_budget: "trim (js ''Ho 5000 euro'') = js ''Ho 5000 euro''"
  by (simp add: trim_def js_def isWhiteSpace_def)

lemma wizard_us_slots:
  "truthyNum (budget wizard_us) \<and> truthyStr (countryCode wizard_us) \<and>
   truthyNum (weeks wizard_us) \<and> \<not> truthyStr (goal wizard_us)"
  by (simp add: wizard_us_def truthyNum_def truthyStr_def code_us_def js_def)

lemma wizard_budget_p2_slots:
  "truthyNum (budget wizard_budget_p2) \<and> \<not> truthyStr (countryCode wizard_budget_p2) \<and>
   \<not> truthyNum (weeks wizard_budget_p2) \<and> \<not> truthyStr (goal wizard_budget_p2)"
  by (simp add: wizard_budget_p2_def truthyNum_def truthyStr_def)

lemma fill_us_other_budget: "fillSlots_srv wizard_us (js ''Ho 5000 euro'') = wizard_us"
  using detected_other_budget wizard_us_slots
  by (simp add: fillSlots_srv_def Let_def truthyNum_def truthyStr_def)

lemma fill_p2_other_budget: "fillSlots wizard_budget_p2 (js ''Ho 5000 euro'') = wizard_budget_p2"
  using detected_other_budget wizard_budget_p2_slots
  by (simp add: fillSlots_def Let_def truthyNum_def truthyStr_def)

lemma chat_us_other_budget:
  "chat_srv demo_llm demo_files sessions_us demo_sid (js ''Ho 5000 euro'') =
     (Json ok AskGoal, sessions_us(demo_sid \<mapsto> \<lparr> msg_count = 4, wizard = wizard_us \<rparr>))"
proof -
  have m: "js ''Ho 5000 euro'' \<noteq> []" by (simp add: js_def)
  have s: "sessions_us demo_sid = Some \<lparr> msg_count = 3, wizard = wizard_us \<rparr>"
    by (simp add: sessions_us_def)
  have q: "msg_count \<lparr> msg_count = 3, wizard = wizard_us \<rparr> < MAX_MESSAGES_FREE"
    by (simp add: MAX_MESSAGES_FREE_def)
  have a: "wizardActive wizard_us"
    using wizard_us_slots by (simp add: wizardActive_def)
  have g: "guided_srv demo_files wizard_us = (Json ok AskGoal, wizard_us)"
    using wizard_us_slots by (simp add: guided_srv_def)
  show ?thesis
    using chat_srv_turn[where ss = sessions_us and sid = demo_sid and llm = demo_llm
        and files = demo_files, OF demo_sid_ne m s q]
    by (simp add: trim_other_budget fill_us_other_budget route_srv_active[OF a] g)
qed

lemma chat_p2_other_budget:
  "chat_p2 demo_llm demo_files sessions_p2 demo_sid (js ''Ho 5000 euro'') =
     (Json ok (AskMore [KnownBudget 9000] SlotCountry),
      sessions_p2(demo_sid \<mapsto> \<lparr> msg_count = 2, wizard = wizard_budget_p2 \<rparr>))"
proof -
  have m: "js ''Ho 5000 euro'' \<noteq> []" by (simp add: js_def)
  have s: "sessions_p2 demo_sid = Some \<lparr> msg_count = 1, wizard = wizard_budget_p2 \<rparr>"
    by (simp add: sessions_p2_def)
  have q: "msg_count \<lparr> msg_count = 1, wizard = wizard_budget_p2 \<rparr> < MAX_MESSAGES_FREE"
    by (simp add: MAX_MESSAGES_FREE_def)
  have a: "wizardActive wizard_budget_p2"
    using wizard_budget_p2_slots by (simp add: wizardActive_def)
  have g: "guided demo_files wizard_budget_p2 =
             (Json ok (AskMore [KnownBudget 9000] SlotCountry), wizard_budget_p2)"
    by (simp add: guided_def Let_def knownParts_def wizard_budget_p2_def truthyNum_def truthyStr_def)
  have r: "route demo_llm demo_files wizard_budget_p2 (js ''Ho 5000 euro'') =
             (Json ok (AskMore [KnownBudget 9000] SlotCountry), wizard_budget_p2)"
    using a g by (simp add: route_def)
  show ?thesis
    using chat_p2_turn[where ss = sessions_p2 and sid = demo_sid and llm = demo_llm
        and files = demo_files, OF demo_sid_ne m s q]
    by (simp add: trim_other_budget fill_p2_other_budget r numeral_2_eq_2)
qed

text \<open>
  Both sessions have the budget 9000; the message names another amount, 5000, and the
  budget is 9000 after the turn.
\<close>

theorem first_write_wins_witness:
  "sessions_us demo_sid = Some \<lparr> msg_count = 3, wizard = wizard_us \<rparr> \<and>
   sessions_p2 demo_sid = Some \<lparr> msg_count = 1, wizard = wizard_budget_p2 \<rparr> \<and>
   budget wizard_us = Some 9000 \<and> budget wizard_budget_p2 = Some 9000 \<and>
   parseBudget_srv (js ''Ho 5000 euro'') = Some 5000 \<and>
   parseBudget (js ''Ho 5000 euro'') = Some 5000 \<and>
   chat_srv demo_llm demo_files sessions_us demo_sid (js ''Ho 5000 euro'') =
     (Json ok AskGoal, sessions_us(demo_sid \<mapsto> \<lparr> msg_count = 4, wizard = wizard_us \<rparr>)) \<and>
   chat_p2 demo_llm demo_files sessions_p2 demo_sid (js ''Ho 5000 euro'') =
     (Json ok (AskMore [KnownBudget 9000] SlotCountry),
      sessions_p2(demo_sid \<mapsto> \<lparr> msg_count = 2, wizard = wizard_budget_p2 \<rparr>)) \<and>
   slotsKept wizard_us wizard_us \<and> slotsKept wizard_budget_p2 wizard_budget_p2"
proof -
  have s1: "sessions_us demo_sid = Some \<lparr> msg_count = 3, wizard = wizard_us \<rparr>"
    by (simp add: sessions_us_def)
  have s2: "sessions_p2 demo_sid = Some \<lparr> msg_count = 1, wizard = wizard_budget_p2 \<rparr>"
    by (simp add: sessions_p2_def)
  have b: "budget wizard_us = Some 9000 \<and> budget wizard_budget_p2 = Some 9000"
    by (simp add: wizard_us_def wizard_budget_p2_def)
  have ne: "wizard_us \<noteq> emptyWizard \<and> wizard_budget_p2 \<noteq> emptyWizard_p2"
    by (simp add: wizard_us_def wizard_budget_p2_def emptyWizard_def emptyWizard_p2_def)
  from first_write_wins
    [where llm = demo_llm and files = demo_files and sid = demo_sid and msg = "js ''Ho 5000 euro''"
       and ss = sessions_us and tt = sessions_p2
       and resp = "Json ok AskGoal"
       and ss' = "sessions_us(demo_sid \<mapsto> \<lparr> msg_count = 4, wizard = wizard_us \<rparr>)"
       and respb = "Json ok (AskMore [KnownBudget 9000] SlotCountry)"
       and tt' = "sessions_p2(demo_sid \<mapsto> \<lparr> msg_count = 2, wizard = wizard_budget_p2 \<rparr>)"
       and s = "\<lparr> msg_count = 3, wizard = wizard_us \<rparr>"
       and t = "\<lparr> msg_count = 1, wizard = wizard_budget_p2 \<rparr>"]
    s1 s2 b ne detected_other_budget chat_us_other_budget chat_p2_other_budget
  show ?thesis by simp
qed

text \<open>
  Claim C7, as amended. In a Ready turn (all four slots set once the text has been
  merged): when the comparison has results, the reply delivers them and all four slots
  are unset afterwards; when it has none, the wizard is not reset: it stays as the
  comparison saw it, so every slot set before the turn has its value from before the
  turn and a slot filled in this turn keeps the value just filled in.
\<close>

theorem ready_turn_reset:
  assumes "sid \<noteq> []" and "msg \<noteq> []" and "sessions sid = Some s"
    and "msg_count s < MAX_MESSAGES_FREE"
    and "w = fillSlots_srv (wizard s) (trim msg)"
    and "ready w"
    and "comparePrograms files (the (countryCode w)) (of_nat (the (budget w)))
           (of_nat (the (weeks w))) = Inr programs"
  shows "(programs \<noteq> [] \<longrightarrow>
            deliveredComparison (fst (chat_srv llm files sessions sid msg)) \<and>
            snd (chat_srv llm files sessions sid msg) =
              sessions(sid \<mapsto> \<lparr> msg_count = msg_count s + 1, wizard = emptyWizard \<rparr>) \<and>
            budget emptyWizard = None \<and> countryCode emptyWizard = None \<and>
            weeks emptyWizard = None \<and> goal emptyWizard = None) \<and>
         (programs = [] \<longrightarrow>
            chat_srv llm files sessions sid msg =
              (Json ok NoPartners, sessions(sid \<mapsto> \<lparr> msg_count = msg_count s + 1, wizard = w \<rparr>)) \<and>
            slotsKept (wizard s) w)"
proof -
  have act: "wizardActive w" using assms(6) by (simp add: ready_def wizardActive_def)
  have turn: "chat_srv llm files sessions sid msg =
       (fst (guided_srv files w),
        sessions(sid \<mapsto> \<lparr> msg_count = msg_count s + 1, wizard = snd (guided_srv files w) \<rparr>))"
    using chat_srv_turn[where ss = sessions and sid = sid and llm = llm and files = files,
        OF assms(1-4)] assms(5) route_srv_active[OF act] by simp
  have g: "guided_srv files w =
     (if programs \<noteq> [] then
        (Json ok (Comparison (trim (the (goal w))) (the (budget w)) (the (weeks w))
                    (the (countryCode w)) (cards programs (of_nat (the (budget w))))),
         emptyWizard)
      else (Json ok NoPartners, w))"
    using assms(6,7) by (simp add: guided_srv_def ready_def)
  have k: "slotsKept (wizard s) w" unfolding assms(5) by (rule fillSlots_srv_kept)
  show ?thesis
    unfolding turn g using k
    by (simp add: deliveredComparison_def cards_eq_Nil emptyWizard_def)
qed

lemma trim_plain: "trim (js ''imparare'') = js ''imparare''"
  by (simp add: trim_def js_def isWhiteSpace_def)

lemma fill_canada:
  "fillSlots_srv wizard_canada (js ''imparare'') = wizard_canada\<lparr>goal := Some (js ''imparare'')\<rparr>"
  using nothing_detected wizard_canada_slots
  by (simp add: fillSlots_srv_def Let_def truthyNum_def truthyStr_def)

lemma fill_us:
  "fillSlots_srv wizard_us (js ''imparare'') = wizard_us\<lparr>goal := Some (js ''imparare'')\<rparr>"
  using nothing_detected
  by (simp add: fillSlots_srv_def Let_def truthyNum_def truthyStr_def wizard_us_def code_us_def js_def)

lemma ready_filled:
  "ready (wizard_canada\<lparr>goal := Some (js ''imparare'')\<rparr>) \<and>
   ready (wizard_us\<lparr>goal := Some (js ''imparare'')\<rparr>)"
  by (simp add: ready_def wizard_canada_def wizard_us_def truthyNum_def truthyStr_def
      code_canada_def code_us_def js_def)

lemma cmp_us:
  "comparePrograms demo_files code_us 9000 24 =
     Inr [priced 9000 24 demo_partner, priced 9000 24 demo_partner2]"
  by (simp add: comparePrograms_def demo_files_def loadPartners_def priced_def Let_def
      demo_partner_def demo_partner2_def)

theorem ready_turn_reset_witness:
  "ready (fillSlots_srv wizard_canada (trim (js ''imparare''))) \<and>
   comparePrograms demo_files code_canada 9000 24 = Inr [] \<and>
   chat_srv demo_llm demo_files sessions_canada demo_sid (js ''imparare'') =
     (Json ok NoPartners,
      sessions_canada(demo_sid \<mapsto>
        \<lparr> msg_count = 4, wizard = wizard_canada\<lparr>goal := Some (js ''imparare'')\<rparr> \<rparr>)) \<and>
   ready (fillSlots_srv wizard_us (trim (js ''imparare''))) \<and>
   comparePrograms demo_files code_us 9000 24 =
     Inr [priced 9000 24 demo_partner, priced 9000 24 demo_partner2] \<and>
   deliveredComparison (fst (chat_srv demo_llm demo_files sessions_us demo_sid (js ''imparare''))) \<and>
   snd (chat_srv demo_llm demo_files sessions_us demo_sid (js ''imparare'')) =
     sessions_us(demo_sid \<mapsto> \<lparr> msg_count = 4, wizard = emptyWizard \<rparr>)"
proof -
  have m: "js ''imparare'' \<noteq> []" by (simp add: js_def)
  have q1: "msg_count \<lparr> msg_count = 3, wizard = wizard_canada \<rparr> < MAX_MESSAGES_FREE"
    and q2: "msg_count \<lparr> msg_count = 3, wizard = wizard_us \<rparr> < MAX_MESSAGES_FREE"
    by (simp_all add: MAX_MESSAGES_FREE_def)
  have s2: "sessions_us demo_sid = Some \<lparr> msg_count = 3, wizard = wizard_us \<rparr>"
    by (simp add: sessions_us_def)
  have w1: "wizard_canada\<lparr>goal := Some (js ''imparare'')\<rparr> =
      fillSlots_srv (wizard \<lparr> msg_count = 3, wizard = wizard_canada \<rparr>) (trim (js ''imparare''))"
    by (simp add: trim_plain fill_canada)
  have w2: "wizard_us\<lparr>goal := Some (js ''imparare'')\<rparr> =
      fillSlots_srv (wizard \<lparr> msg_count = 3, wizard = wizard_us \<rparr>) (trim (js ''imparare''))"
    by (simp add: trim_plain fill_us)
  have c1: "comparePrograms demo_files (the (countryCode (wizard_canada\<lparr>goal := Some (js ''imparare'')\<rparr>)))
       (of_nat (the (budget (wizard_canada\<lparr>goal := Some (js ''imparare'')\<rparr>))))
       (of_nat (the (weeks (wizard_canada\<lparr>goal := Some (js ''imparare'')\<rparr>)))) = Inr []"
    by (simp add: wizard_canada_def cmp_canada)
  have c2: "comparePrograms demo_files (the (countryCode (wizard_us\<lparr>goal := Some (js ''imparare'')\<rparr>)))
       (of_nat (the (budget (wizard_us\<lparr>goal := Some (js ''imparare'')\<rparr>))))
       (of_nat (the (weeks (wizard_us\<lparr>goal := Some (js ''imparare'')\<rparr>)))) =
         Inr [priced 9000 24 demo_partner, priced 9000 24 demo_partner2]"
    by (simp add: wizard_us_def cmp_us)
  from ready_turn_reset
         [where sessions = sessions_canada and sid = demo_sid and llm = demo_llm
            and files = demo_files, OF demo_sid_ne m sessions_canada_sid q1 w1 _ c1]
       ready_turn_reset
         [where sessions = sessions_us and sid = demo_sid and llm = demo_llm
            and files = demo_files, OF demo_sid_ne m s2 q2 w2 _ c2]
       ready_filled cmp_canada cmp_us
  show ?thesis by (simp add: trim_plain fill_canada fill_us)
qed

text \<open>
  The claim as stated says that with zero candidates every slot keeps its value from
  before the turn. Here the goal is unset before the turn, the turn fills it, the
  comparison finds no candidate, and the goal is set afterwards.
\<close>

theorem ready_turn_changes_slot_counterexample:
  "ready (fillSlots_srv wizard_canada (trim (js ''imparare''))) \<and>
   comparePrograms demo_files code_canada 9000 24 = Inr [] \<and>
   sessions_canada demo_sid = Some \<lparr> msg_count = 3, wizard = wizard_canada \<rparr> \<and>
   goal wizard_canada = None \<and>
   fst (chat_srv demo_llm demo_files sessions_canada demo_sid (js ''imparare'')) = Json ok NoPartners \<and>
   map_option (\<lambda>s. goal (wizard s))
     (snd (chat_srv demo_llm demo_files sessions_canada demo_sid (js ''imparare'')) demo_sid) =
     Some (Some (js ''imparare''))"
proof -
  have m: "js ''imparare'' \<noteq> []" by (simp add: js_def)
  have q: "msg_count \<lparr> msg_count = 3, wizard = wizard_canada \<rparr> < MAX_MESSAGES_FREE"
    by (simp add: MAX_MESSAGES_FREE_def)
  have a: "wizardActive (wizard_canada\<lparr>goal := Some (js ''imparare'')\<rparr>)"
    using wizard_canada_slots by (simp add: wizardActive_def)
  have g: "guided_srv demo_files (wizard_canada\<lparr>goal := Some (js ''imparare'')\<rparr>) =
     (Json ok NoPartners, wizard_canada\<lparr>goal := Some (js ''imparare'')\<rparr>)"
    using wizard_canada_slots cmp_canada
    by (simp add: guided_srv_def wizard_canada_def truthyStr_def js_def)
  have c: "chat_srv demo_llm demo_files sessions_canada demo_sid (js ''imparare'') =
     (Json ok NoPartners,
      sessions_canada(demo_sid \<mapsto> \<lparr> msg_count = 4, wizard = wizard_canada\<lparr>goal := Some (js ''imparare'')\<rparr> \<rparr>))"
    using chat_srv_turn[where ss = sessions_canada and sid = demo_sid and llm = demo_llm
        and files = demo_files, OF demo_sid_ne m sessions_canada_sid q]
    by (simp add: trim_plain fill_canada route_srv_active[OF a] g)
  have g0: "goal wizard_canada = None" by (simp add: wizard_canada_def)
  from ready_filled cmp_canada sessions_canada_sid g0 c show ?thesis
    by (simp add: trim_plain fill_canada)
qed

lemma applyPatch_patchOf: "applyPatch w (Some (patchOf w)) = w"
  by (simp add: applyPatch_def patchOf_def)

lemma retryReply_truthy: "truthyStr (Some retryReply)"
  by (simp add: truthyStr_def retryReply_def)

lemma runWizardControllerLLM_fallback:
  "failsShapeCheck (model w text) \<Longrightarrow> runWizardControllerLLM model w text = Inr (fallbackControl w)"
  by (auto simp: failsShapeCheck_def runWizardControllerLLM_def split: llm_output.splits)

lemma chat_llm_turn:
  "sid \<noteq> [] \<Longrightarrow> msg \<noteq> [] \<Longrightarrow>
   s = (case ss sid of None \<Rightarrow> \<lparr> msg_count = 0, wizard = emptyWizard_llm \<rparr> | Some s0 \<Rightarrow> s0) \<Longrightarrow>
   msg_count s < MAX_MESSAGES_FREE \<Longrightarrow>
   runWizardControllerLLM model (wizard s) (trim msg) = Inr ctl \<Longrightarrow>
   action ctl = Some (js ''ask_more'') \<Longrightarrow>
     chat_llm model files ss sid msg =
       (Json ok (Text (if truthyStr (reply ctl) then the (reply ctl) else [])),
        ss(sid \<mapsto> \<lparr> msg_count = msg_count s + 1,
                     wizard = applyPatch (wizard s) (updatedWizard ctl) \<rparr>))"
  by (simp add: chat_llm_def Let_def)

text \<open>
  Claim C8, as amended. When the output of the delegated extractor is not JSON, is not
  an object, or has no truthy \<open>updatedWizard\<close> or \<open>action\<close>, the handler discards it: the
  reply is the generic re-prompt, no slot changes, and the turn is counted. Here \<open>s\<close> is
  the session of the request, a fresh one when the store has none. An object that has
  both fields passes the check and is returned as it is, whatever its \<open>reply\<close>.
\<close>

theorem shape_check_failure_discards_output:
  assumes "sid \<noteq> []" and "msg \<noteq> []"
    and "s = (case sessions sid of
                None \<Rightarrow> \<lparr> msg_count = 0, wizard = emptyWizard_llm \<rparr>
              | Some s0 \<Rightarrow> s0)"
    and "msg_count s < MAX_MESSAGES_FREE"
    and "failsShapeCheck (model (wizard s) (trim msg))"
  shows "chat_llm model files sessions sid msg =
           (Json ok (Text retryReply),
            sessions(sid \<mapsto> \<lparr> msg_count = msg_count s + 1, wizard = wizard s \<rparr>)) \<and>
         (updatedWizard c \<noteq> None \<and> truthyStr (action c) \<longrightarrow>
            \<not> failsShapeCheck (JsonObject c) \<and>
            runWizardControllerLLM (\<lambda>w text. JsonObject c) w' text' = Inr c)"
proof -
  have r: "runWizardControllerLLM model (wizard s) (trim msg) = Inr (fallbackControl (wizard s))"
    using assms(5) by (rule runWizardControllerLLM_fallback)
  have a: "action (fallbackControl (wizard s)) = Some (js ''ask_more'')"
    by (simp add: fallbackControl_def)
  have d: "chat_llm model files sessions sid msg =
           (Json ok (Text retryReply),
            sessions(sid \<mapsto> \<lparr> msg_count = msg_count s + 1, wizard = wizard s \<rparr>))"
    using chat_llm_turn[where ss = sessions and sid = sid and model = model and files = files,
        OF assms(1-4) r a] retryReply_truthy
    by (simp add: fallbackControl_def applyPatch_patchOf)
  have p: "updatedWizard c \<noteq> None \<and> truthyStr (action c) \<longrightarrow>
            \<not> failsShapeCheck (JsonObject c) \<and>
            runWizardControllerLLM (\<lambda>w text. JsonObject c) w' text' = Inr c"
    by (simp add: failsShapeCheck_def runWizardControllerLLM_def)
  from d p show ?thesis by blast
qed

lemma sessions_llm_sid:
  "\<lparr> msg_count = 3, wizard = emptyWizard_llm \<rparr> =
     (case sessions_llm demo_sid of
        None \<Rightarrow> \<lparr> msg_count = 0, wizard = emptyWizard_llm \<rparr>
      | Some s0 \<Rightarrow> s0)"
  by (simp add: sessions_llm_def)

lemma no_session:
  "\<lparr> msg_count = 0, wizard = emptyWizard_llm \<rparr> =
     (case (Map.empty :: jsstring \<rightharpoonup> wizard_llm session) demo_sid of
        None \<Rightarrow> \<lparr> msg_count = 0, wizard = emptyWizard_llm \<rparr>
      | Some s0 \<Rightarrow> s0)"
  by simp

theorem shape_check_failure_discards_output_witness:
  "failsShapeCheck (model_without_slots emptyWizard_llm (trim (js ''Ho 9000 euro''))) \<and>
   chat_llm model_without_slots demo_files sessions_llm demo_sid (js ''Ho 9000 euro'') =
     (Json ok (Text retryReply),
      sessions_llm(demo_sid \<mapsto> \<lparr> msg_count = 4, wizard = emptyWizard_llm \<rparr>)) \<and>
   failsShapeCheck NotJson \<and>
   chat_llm (\<lambda>w text. NotJson) demo_files Map.empty demo_sid (js ''Ho 9000 euro'') =
     (Json ok (Text retryReply),
      [demo_sid \<mapsto> \<lparr> msg_count = 1, wizard = emptyWizard_llm \<rparr>])"
proof -
  have m: "js ''Ho 9000 euro'' \<noteq> []" by (simp add: js_def)
  have q: "msg_count \<lparr> msg_count = 3, wizard = emptyWizard_llm \<rparr> < MAX_MESSAGES_FREE"
    and q0: "msg_count \<lparr> msg_count = 0, wizard = emptyWizard_llm \<rparr> < MAX_MESSAGES_FREE"
    by (simp_all add: MAX_MESSAGES_FREE_def)
  have f1: "failsShapeCheck (model_without_slots (wizard \<lparr> msg_count = 3, wizard = emptyWizard_llm \<rparr>)
              (trim (js ''Ho 9000 euro'')))"
    by (simp add: failsShapeCheck_def model_without_slots_def)
  have f2: "failsShapeCheck ((\<lambda>w text. NotJson) (wizard \<lparr> msg_count = 0, wizard = emptyWizard_llm \<rparr>)
              (trim (js ''Ho 9000 euro'')))"
    by (simp add: failsShapeCheck_def)
  from shape_check_failure_discards_output
         [where sessions = sessions_llm and sid = demo_sid and model = model_without_slots
            and files = demo_files, OF demo_sid_ne m sessions_llm_sid q f1]
       shape_check_failure_discards_output
         [where sessions = Map.empty and sid = demo_sid and model = "\<lambda>w text. NotJson"
            and files = demo_files, OF demo_sid_ne m no_session q0 f2]
       f1 f2
  show ?thesis by simp
qed

text \<open>
  The claim as stated has every output with a missing field discarded. An output with
  \<open>updatedWizard\<close> and \<open>action\<close> but no \<open>reply\<close> passes the check: its budget is merged
  into the wizard and the reply is the empty string, not the re-prompt.
\<close>

theorem missing_reply_is_merged_counterexample:
  "updatedWizard output_without_reply \<noteq> None \<and>
   action output_without_reply = Some (js ''ask_more'') \<and>
   reply output_without_reply = None \<and>
   budget emptyWizard_llm = None \<and>
   fst (chat_llm model_without_reply demo_files sessions_llm demo_sid (js ''Ho 9000 euro'')) =
     Json ok (Text []) \<and>
   map_option (\<lambda>s. budget (wizard s))
     (snd (chat_llm model_without_reply demo_files sessions_llm demo_sid (js ''Ho 9000 euro'')) demo_sid) =
     Some (Some 9000) \<and>
   retryReply \<noteq> []"
proof -
  have m: "js ''Ho 9000 euro'' \<noteq> []" by (simp add: js_def)
  have q: "msg_count \<lparr> msg_count = 3, wizard = emptyWizard_llm \<rparr> < MAX_MESSAGES_FREE"
    by (simp add: MAX_MESSAGES_FREE_def)
  have t: "truthyStr (Some (js ''ask_more''))" by (simp add: truthyStr_def js_def)
  have r: "runWizardControllerLLM model_without_reply
             (wizard \<lparr> msg_count = 3, wizard = emptyWizard_llm \<rparr>) (trim (js ''Ho 9000 euro'')) =
           Inr output_without_reply"
    using t by (simp add: runWizardControllerLLM_def model_without_reply_def output_without_reply_def)
  have a: "action output_without_reply = Some (js ''ask_more'')"
    by (simp add: output_without_reply_def)
  have c: "chat_llm model_without_reply demo_files sessions_llm demo_sid (js ''Ho 9000 euro'') =
       (Json ok (Text []),
        sessions_llm(demo_sid \<mapsto> \<lparr> msg_count = 4,
          wizard = applyPatch emptyWizard_llm (updatedWizard output_without_reply) \<rparr>))"
    using chat_llm_turn[where ss = sessions_llm and sid = demo_sid and model = model_without_reply
        and files = demo_files, OF demo_sid_ne m sessions_llm_sid q r a]
    by (simp add: output_without_reply_def truthyStr_def)
  have b: "budget (applyPatch emptyWizard_llm (updatedWizard output_without_reply)) = Some 9000"
    by (simp add: applyPatch_def output_without_reply_def)
  have e: "budget emptyWizard_llm = None" by (simp add: emptyWizard_llm_def)
  have u: "updatedWizard output_without_reply \<noteq> None \<and> reply output_without_reply = None"
    by (simp add: output_without_reply_def)
  have n: "retryReply \<noteq> []" by (simp add: retryReply_def)
  from u a e c b n show ?thesis by simp
qed

end
